theory Spec2Isabelle
  imports Complex_Main
begin

section \<open>Toolhead motion coordinator (klippy/toolhead.py)\<close>

text \<open>
  A shallow embedding of \<^verbatim>\<open>MoveQueue\<close> and \<^verbatim>\<open>ToolHead\<close>. Times, positions and
  limits are Python floats in the source; they are modelled as exact reals, so the
  theorems speak about the order and arithmetic structure of the computations, not about
  rounding. Python objects that live outside the file (reactor, mcu, gcode command,
  kinematics, the native move planner) appear as fields of an environment record; every
  call the toolhead makes on a collaborator that does not return a value is recorded in a
  trace of events.
\<close>

subsection \<open>Constants\<close>

definition LOOKAHEAD_FLUSH_TIME :: real where "LOOKAHEAD_FLUSH_TIME = 0.250"
definition MIN_KIN_TIME :: real where "MIN_KIN_TIME = 0.100"
definition MOVE_BATCH_TIME :: real where "MOVE_BATCH_TIME = 0.500"
definition SDS_CHECK_TIME :: real where "SDS_CHECK_TIME = 0.001"
definition DRIP_SEGMENT_TIME :: real where "DRIP_SEGMENT_TIME = 0.050"
definition DRIP_TIME :: real where "DRIP_TIME = 0.100"

subsection \<open>Data\<close>

text \<open>A lookahead callback is a Python callable; the model keeps its identity.\<close>

type_synonym callback = nat

text \<open>
  The native move object returned by \<^verbatim>\<open>mymovie.PyMove()\<close>. The Python code reads only
  its attribute \<^verbatim>\<open>min_move_t\<close>; \<open>move_tag\<close> tells moves apart.
\<close>

record pymove =
  min_move_t :: real
  move_tag :: nat

text \<open>The drip completion object handed to \<^verbatim>\<open>drip_move\<close>: \<^verbatim>\<open>test()\<close> at a reactor time,
  and \<^verbatim>\<open>wait(waketime)\<close>, which gives the reactor time at which the wait returns.\<close>

record completion =
  completion_test :: "real \<Rightarrow> bool"
  completion_wait :: "real \<Rightarrow> real \<Rightarrow> real"

datatype command_error =
    ExtrudeBelowMinimumTemp
  | MustHomeAxisFirst
  | MoveOutOfRange string "real list"
  | ExtrudeOnlyMoveTooLong
  | MoveExceedsMaximumExtrusion
  | GcodeParameterError string

datatype error =
    CommandError command_error
  | DripModeEndSignal
  | NameError string
  | IndexError
  | ValueError
  | AttributeError
  | ZeroDivisionError

text \<open>
  How a call ends: it returns, it raises, or the model stops following a loop of
  cooperative pauses after the number of rounds the environment allows.
\<close>

datatype outcome = Ok | Raise error | OutOfFuel

text \<open>The command line that \<^verbatim>\<open>cmd_M204\<close> records: \<^verbatim>\<open>M204 S..\<close> or \<^verbatim>\<open>M204 P.. T..\<close>.\<close>

datatype m204_cmd = M204_S real | M204_P_T real real

datatype event =
    StepGenerator nat real
  | TrapqFinalizeMoves real
  | ExtruderUpdateMoveTime real
  | McuFlushMoves nat real
  | SyncPrintTime real real real
  | PyMoveQueueFlushCal nat bool
  | PyMoveQueueDel nat
  | TrapqAppendFromMoveq real nat
  | CallbackInvoked callback real
  | TrapqSetPosition real real real real
  | KinSetPosition "real list" "nat list"
  | SendEvent string
  | RespondInfo string
  | WriteZPosFile real
  | RecordM204 m204_cmd
  | InvokeShutdown string

record toolhead =
  double_array :: "real list"
  queue :: "(pymove \<times> callback list) list"
  junction_flush :: real
  can_pause :: bool
  commanded_pos :: "real list"
  max_velocity :: real
  max_accel :: real
  requested_accel_to_decel :: real
  max_accel_to_decel :: real
  square_corner_velocity :: real
  square_corner_max_velocity :: real
  junction_deviation :: real
  buffer_time_low :: real
  buffer_time_high :: real
  buffer_time_start :: real
  move_flush_time :: real
  print_time :: real
  special_queuing_state :: string
  need_check_stall :: real
  flush_timer :: real
  idle_flush_print_time :: real
  print_stall :: nat
  drip_completion :: "completion option"
  kin_flush_delay :: real
  kin_flush_times :: "real list"
  last_kin_flush_time :: real
  last_kin_move_time :: real
  step_generators :: "nat list"
  all_mcus :: "nat list"
  extruder_last_position :: real
  z_pos :: real
  qmode_flag :: bool
  G29_flag :: bool
  print_stats_z_pos :: real
  count_M204 :: nat
  reactor_time :: real
  trace :: "event list"

text \<open>
  The collaborators. \<open>estimated_print_time\<close> is \<^verbatim>\<open>mcu.estimated_print_time\<close>;
  \<open>reactor_pause\<close> gives the event time \<^verbatim>\<open>reactor.pause(waketime)\<close> returns;
  \<open>Py_move_queue_flush_cal\<close>, \<open>trapq_append_from_moveq\<close> and \<open>PyMove\<close> are the native
  helpers, applied to what the Python side hands them (the queued moves, the start time,
  the 14-slot buffer; \<open>PyMove\<close> gives the return code it stores in slot 13 and the move
  object). The \<open>kin_\<close> fields are what the kinematics object answers,
  \<open>print_stats_state\<close> is \<open>None\<close> when no \<^verbatim>\<open>print_stats\<close> object exists,
  \<open>Qmode_section\<close> holds \<^verbatim>\<open>variable_max_accel\<close> and \<^verbatim>\<open>variable_max_accel_to_decel\<close> of
  the section \<^verbatim>\<open>gcode_macro Qmode\<close> when the configuration has it, and \<open>pause_rounds\<close>
  bounds the rounds of a pause loop the model follows.
\<close>

record env =
  estimated_print_time :: "real \<Rightarrow> real"
  reactor_pause :: "real \<Rightarrow> real"
  reactor_NEVER :: real
  reactor_NOW :: real
  Py_move_queue_flush_cal :: "pymove list \<Rightarrow> bool \<Rightarrow> nat"
  trapq_append_from_moveq :: "real \<Rightarrow> pymove list \<Rightarrow> real \<times> real"
  PyMove :: "real list \<Rightarrow> real \<times> pymove"
  kin_class_is_CoreXY :: bool
  kin_status_for_record_z_pos :: bool
  kin_z_homed :: bool
  kin_limits :: "(real \<times> real) \<times> (real \<times> real) \<times> (real \<times> real)"
  print_stats_state :: "string option"
  virtual_sdcard_present :: bool
  print_file_exists :: bool
  custom_macro_qmode_flag :: bool
  Qmode_section :: "(real \<times> real) option"
  pause_rounds :: nat

subsection \<open>Print time tracking\<close>

text \<open>One round of the loop of \<^verbatim>\<open>_update_move_time\<close>.\<close>

definition update_move_time_step :: "real \<Rightarrow> real \<Rightarrow> real \<Rightarrow> toolhead \<Rightarrow> toolhead" where
  "update_move_time_step kfd lkft next_print_time s =
     (let pt = min (print_time s + MOVE_BATCH_TIME) next_print_time;
          sg_flush_time = max lkft (pt - kfd);
          free_time = max lkft (sg_flush_time - kfd);
          mcu_flush_time = max lkft (sg_flush_time - move_flush_time s)
      in s\<lparr>print_time := pt,
            trace := trace s
              @ map (\<lambda>sg. StepGenerator sg sg_flush_time) (step_generators s)
              @ [TrapqFinalizeMoves free_time, ExtruderUpdateMoveTime free_time]
              @ map (\<lambda>m. McuFlushMoves m mcu_flush_time) (all_mcus s)\<rparr>)"

function update_move_time_loop :: "real \<Rightarrow> real \<Rightarrow> real \<Rightarrow> toolhead \<Rightarrow> toolhead" where
  "update_move_time_loop kfd lkft next_print_time s =
     (let s' = update_move_time_step kfd lkft next_print_time s
      in if print_time s' \<ge> next_print_time then s'
         else update_move_time_loop kfd lkft next_print_time s')"
  by pat_completeness auto
termination
proof (relation "measure (\<lambda>(kfd, lkft, n, s). nat \<lceil>2 * (n - print_time s)\<rceil>)")
  show "wf (measure (\<lambda>(kfd, lkft, n, s). nat \<lceil>2 * (n - print_time s)\<rceil>))"
    by simp
next
  fix kfd lkft next_print_time :: real and s s' :: toolhead
  assume s': "s' = update_move_time_step kfd lkft next_print_time s"
    and nb: "\<not> next_print_time \<le> print_time s'"
  have pt: "print_time s' = min (print_time s + MOVE_BATCH_TIME) next_print_time"
    by (simp add: s' update_move_time_step_def Let_def)
  with nb have eq: "print_time s' = print_time s + 1 / 2"
    by (simp add: MOVE_BATCH_TIME_def min_def split: if_splits)
  have "\<lceil>2 * (next_print_time - print_time s')\<rceil> = \<lceil>2 * (next_print_time - print_time s)\<rceil> - 1"
    unfolding eq by (simp add: algebra_simps) linarith
  moreover have "0 < \<lceil>2 * (next_print_time - print_time s')\<rceil>"
    using nb by simp
  ultimately show "((kfd, lkft, next_print_time, s'), (kfd, lkft, next_print_time, s))
      \<in> measure (\<lambda>(kfd, lkft, n, s). nat \<lceil>2 * (n - print_time s)\<rceil>)"
    by simp
qed

declare update_move_time_loop.simps [simp del]

definition update_move_time :: "real \<Rightarrow> toolhead \<Rightarrow> toolhead" where
  "update_move_time next_print_time s =
     update_move_time_loop (kin_flush_delay s) (last_kin_flush_time s) next_print_time s"

definition calc_print_time :: "env \<Rightarrow> toolhead \<Rightarrow> toolhead" where
  "calc_print_time e s =
     (let curtime = reactor_time s;
          est_print_time = estimated_print_time e curtime;
          kin_time = max (est_print_time + MIN_KIN_TIME) (last_kin_flush_time s);
          kin_time = kin_time + kin_flush_delay s;
          min_print_time = max (est_print_time + buffer_time_start s) kin_time
      in if min_print_time > print_time s
         then s\<lparr>print_time := min_print_time,
                 trace := trace s @ [SyncPrintTime curtime est_print_time min_print_time]\<rparr>
         else s)"

subsection \<open>MoveQueue\<close>

definition reset :: "toolhead \<Rightarrow> toolhead" where
  "reset s = s\<lparr>trace := trace s @ [PyMoveQueueDel (length (queue s))],
               queue := [],
               junction_flush := LOOKAHEAD_FLUSH_TIME\<rparr>"

definition set_flush_time :: "real \<Rightarrow> toolhead \<Rightarrow> toolhead" where
  "set_flush_time flush_time s = s\<lparr>junction_flush := flush_time\<rparr>"

definition get_last :: "toolhead \<Rightarrow> (pymove \<times> callback list) option" where
  "get_last s = (if queue s \<noteq> [] then Some (last (queue s)) else None)"

subsection \<open>Drip mode and move processing\<close>

text \<open>
  \<^verbatim>\<open>_update_drip_move_time\<close>: the loop may wait on the completion any number of times, so
  the model follows it for a bounded number of rounds.
\<close>

fun update_drip_move_time_loop ::
  "nat \<Rightarrow> env \<Rightarrow> real \<Rightarrow> real \<Rightarrow> toolhead \<Rightarrow> outcome \<times> toolhead" where
  "update_drip_move_time_loop fuel e flush_delay next_print_time s =
     (if \<not> print_time s < next_print_time then (Ok, s)
      else case drip_completion s of
        None \<Rightarrow> (Raise AttributeError, s)
      | Some c \<Rightarrow>
          if completion_test c (reactor_time s) then (Raise DripModeEndSignal, s)
          else
            let curtime = reactor_time s;
                est_print_time = estimated_print_time e curtime;
                wait_time = print_time s - est_print_time - flush_delay
            in case fuel of
                 0 \<Rightarrow> (OutOfFuel, s)
               | Suc n \<Rightarrow>
                   if wait_time > 0 \<and> can_pause s
                   then update_drip_move_time_loop n e flush_delay next_print_time
                          (s\<lparr>reactor_time := completion_wait c curtime (curtime + wait_time)\<rparr>)
                   else
                     let npt = min (print_time s + DRIP_SEGMENT_TIME) next_print_time
                     in update_drip_move_time_loop n e flush_delay next_print_time
                          (update_move_time npt s))"

declare update_drip_move_time_loop.simps [simp del]

definition update_drip_move_time :: "env \<Rightarrow> real \<Rightarrow> toolhead \<Rightarrow> outcome \<times> toolhead" where
  "update_drip_move_time e next_print_time s =
     (let flush_delay = DRIP_TIME + move_flush_time s + kin_flush_delay s
      in update_drip_move_time_loop (pause_rounds e) e flush_delay next_print_time s)"

text \<open>
  \<^verbatim>\<open>_process_moves\<close>. The loop over the moves that appended each trapezoid and called the
  callbacks of each move is commented out in the source; the batch goes to the native
  \<^verbatim>\<open>trapq_append_from_moveq\<close>, which gets the start time and the number of moves and
  returns the end time and the extruder position.
\<close>

definition process_moves ::
  "env \<Rightarrow> (pymove \<times> callback list) list \<Rightarrow> toolhead \<Rightarrow> outcome \<times> toolhead" where
  "process_moves e moves s0 =
     (let s1 = (if special_queuing_state s0 \<noteq> ''''
                then calc_print_time e
                       (if special_queuing_state s0 \<noteq> ''Drip''
                        then s0\<lparr>special_queuing_state := '''',
                                need_check_stall := - 1,
                                flush_timer := reactor_NOW e\<rparr>
                        else s0)
                else s0);
          next_move_time = print_time s1;
          return_value = trapq_append_from_moveq e next_move_time (map fst moves);
          s2 = s1\<lparr>trace := trace s1 @ [TrapqAppendFromMoveq next_move_time (length moves)]\<rparr>;
          s3 = (if snd return_value < 109999999
                then s2\<lparr>extruder_last_position := snd return_value\<rparr> else s2)
      in case (if special_queuing_state s3 \<noteq> ''''
               then update_drip_move_time e (fst return_value) s3 else (Ok, s3)) of
           (Ok, s4) \<Rightarrow>
             (Ok, (update_move_time (fst return_value) s4)
                    \<lparr>last_kin_move_time := fst return_value\<rparr>)
         | (r, s4) \<Rightarrow> (r, s4))"

definition flush :: "env \<Rightarrow> bool \<Rightarrow> toolhead \<Rightarrow> outcome \<times> toolhead" where
  "flush e lazy s0 =
     (let s1 = s0\<lparr>junction_flush := LOOKAHEAD_FLUSH_TIME\<rparr>;
          flush_count = length (queue s1)
      in if flush_count = 0 then (Ok, s1)
         else
           let s2 = s1\<lparr>trace := trace s1 @ [PyMoveQueueFlushCal flush_count lazy]\<rparr>;
               flush_count = Py_move_queue_flush_cal e (map fst (queue s2)) lazy
           in if flush_count \<noteq> 0
              then case process_moves e (take flush_count (queue s2)) s2 of
                     (Ok, s3) \<Rightarrow>
                       (Ok, s3\<lparr>trace := trace s3 @ [PyMoveQueueDel flush_count],
                               queue := drop flush_count (queue s3)\<rparr>)
                   | (r, s3) \<Rightarrow> (r, s3)
              else (Ok, s2))"

definition add_move :: "env \<Rightarrow> pymove \<Rightarrow> toolhead \<Rightarrow> outcome \<times> toolhead" where
  "add_move e mv s0 =
     (let s1 = s0\<lparr>queue := queue s0 @ [(mv, [])]\<rparr>
      in if length (queue s1) = 1 then (Ok, s1)
         else
           let s2 = s1\<lparr>junction_flush := junction_flush s1 - min_move_t mv\<rparr>
           in if junction_flush s2 \<le> 0 then flush e True s2 else (Ok, s2))"

subsection \<open>Flushing\<close>

definition flush_step_generation :: "env \<Rightarrow> toolhead \<Rightarrow> outcome \<times> toolhead" where
  "flush_step_generation e s0 =
     (case flush e False s0 of
        (Ok, s1) \<Rightarrow>
          let s2 = s1\<lparr>special_queuing_state := ''Flushed'',
                      need_check_stall := - 1,
                      flush_timer := reactor_NEVER e\<rparr>;
              s3 = set_flush_time (buffer_time_high s2) s2;
              s4 = s3\<lparr>idle_flush_print_time := 0\<rparr>;
              flush_time = last_kin_move_time s4 + kin_flush_delay s4;
              flush_time = max flush_time (print_time s4 - kin_flush_delay s4);
              s5 = s4\<lparr>last_kin_flush_time := max (last_kin_flush_time s4) flush_time\<rparr>
          in (Ok, update_move_time (max (print_time s5) (last_kin_flush_time s5)) s5)
      | (r, s1) \<Rightarrow> (r, s1))"

definition flush_lookahead :: "env \<Rightarrow> toolhead \<Rightarrow> outcome \<times> toolhead" where
  "flush_lookahead e s =
     (if special_queuing_state s \<noteq> '''' then flush_step_generation e s
      else flush e False s)"

text \<open>\<^verbatim>\<open>get_last_move_time\<close> returns \<^verbatim>\<open>self.print_time\<close>: the value is the print time
  of the state it leaves.\<close>

definition get_last_move_time :: "env \<Rightarrow> toolhead \<Rightarrow> outcome \<times> toolhead" where
  "get_last_move_time e s0 =
     (case flush_lookahead e s0 of
        (Ok, s1) \<Rightarrow>
          (Ok, if special_queuing_state s1 \<noteq> '''' then calc_print_time e s1 else s1)
      | (r, s1) \<Rightarrow> (r, s1))"

subsection \<open>Stall checking and the flush timer\<close>

text \<open>
  The stall loop of \<^verbatim>\<open>_check_stall\<close>. It gives the outcome, whether the function returned
  from inside the loop (the MCU cannot pause), and the last \<^verbatim>\<open>est_print_time\<close>. Other
  reactor tasks that run during a pause are outside the model.
\<close>

fun check_stall_loop ::
  "nat \<Rightarrow> env \<Rightarrow> real \<Rightarrow> toolhead \<Rightarrow> (outcome \<times> bool \<times> real) \<times> toolhead" where
  "check_stall_loop fuel e eventtime s =
     (let est_print_time = estimated_print_time e eventtime;
          buffer_time = print_time s - est_print_time;
          stall_time = buffer_time - buffer_time_high s
      in if stall_time \<le> 0 then ((Ok, False, est_print_time), s)
         else if \<not> can_pause s
         then ((Ok, True, est_print_time), s\<lparr>need_check_stall := reactor_NEVER e\<rparr>)
         else case fuel of
                0 \<Rightarrow> ((OutOfFuel, False, est_print_time), s)
              | Suc n \<Rightarrow>
                  let t = reactor_pause e (eventtime + min 1 stall_time)
                  in check_stall_loop n e t (s\<lparr>reactor_time := t\<rparr>))"

declare check_stall_loop.simps [simp del]

definition check_stall :: "env \<Rightarrow> toolhead \<Rightarrow> outcome \<times> toolhead" where
  "check_stall e s0 =
     (let eventtime = reactor_time s0;
          s1 = (if special_queuing_state s0 \<noteq> ''''
                then
                  let sa = (if idle_flush_print_time s0 \<noteq> 0
                            then
                              let est_print_time = estimated_print_time e eventtime;
                                  sb = (if est_print_time < idle_flush_print_time s0
                                        then s0\<lparr>print_stall := print_stall s0 + 1\<rparr> else s0)
                              in sb\<lparr>idle_flush_print_time := 0\<rparr>
                            else s0)
                  in sa\<lparr>special_queuing_state := ''Priming'',
                        need_check_stall := - 1,
                        flush_timer := eventtime + 0.100\<rparr>
                else s0)
      in case check_stall_loop (pause_rounds e) e eventtime s1 of
           ((Ok, returned, est_print_time), s2) \<Rightarrow>
             if returned then (Ok, s2)
             else (Ok, if special_queuing_state s2 = ''''
                       then s2\<lparr>need_check_stall :=
                                 est_print_time + buffer_time_high s2 + 0.100\<rparr>
                       else s2)
         | ((r, returned, est_print_time), s2) \<Rightarrow> (r, s2))"

text \<open>
  \<^verbatim>\<open>_flush_handler\<close> is the timer callback: the value it returns is the next wake-up time
  of the flush timer. The bare \<^verbatim>\<open>except\<close> turns every exception into a shutdown request.
\<close>

definition flush_handler :: "env \<Rightarrow> real \<Rightarrow> toolhead \<Rightarrow> outcome \<times> toolhead" where
  "flush_handler e eventtime s0 =
     (let print_time0 = print_time s0;
          buffer_time = print_time0 - estimated_print_time e eventtime
      in if buffer_time > buffer_time_low s0
         then (Ok, s0\<lparr>flush_timer := eventtime + buffer_time - buffer_time_low s0\<rparr>)
         else case flush_step_generation e s0 of
                (Ok, s1) \<Rightarrow>
                  (Ok, (if print_time0 \<noteq> print_time s1
                        then s1\<lparr>idle_flush_print_time := print_time s1\<rparr> else s1)
                         \<lparr>flush_timer := reactor_NEVER e\<rparr>)
              | (Raise err, s1) \<Rightarrow>
                  (Ok, s1\<lparr>trace := trace s1 @ [InvokeShutdown ''Exception in flush_handler''],
                          flush_timer := reactor_NEVER e\<rparr>)
              | (OutOfFuel, s1) \<Rightarrow> (OutOfFuel, s1))"

subsection \<open>Movement commands\<close>

text \<open>Reading a Python list at an index: \<open>None\<close> stands for the IndexError.\<close>

definition py_index :: "real list \<Rightarrow> nat \<Rightarrow> real option" where
  "py_index xs i = (if i < length xs then Some (xs ! i) else None)"

text \<open>
  A run of assignments \<^verbatim>\<open>double_array[i] = value\<close>, in order. The run stops at the first
  value whose evaluation raised; the flag tells whether all of them were stored.
\<close>

fun store_all :: "(nat \<times> real option) list \<Rightarrow> real list \<Rightarrow> bool \<times> real list" where
  "store_all [] da = (True, da)"
| "store_all ((i, None) # rest) da = (False, da)"
| "store_all ((i, Some v) # rest) da = store_all rest (da[i := v])"

definition set_position :: "env \<Rightarrow> real list \<Rightarrow> nat list \<Rightarrow> toolhead \<Rightarrow> outcome \<times> toolhead" where
  "set_position e newpos homing_axes s0 =
     (case flush_step_generation e s0 of
        (Ok, s1) \<Rightarrow>
          if length newpos < 3 then (Raise IndexError, s1)
          else
            let s2 = s1\<lparr>trace := trace s1
                          @ [TrapqSetPosition (print_time s1) (newpos ! 0) (newpos ! 1) (newpos ! 2)],
                        commanded_pos := newpos\<rparr>
            in (case store_all [(4, py_index (commanded_pos s2) 0), (5, py_index (commanded_pos s2) 1),
                                (6, py_index (commanded_pos s2) 2), (7, py_index (commanded_pos s2) 3)]
                       (double_array s2) of
                  (False, da) \<Rightarrow> (Raise IndexError, s2\<lparr>double_array := da\<rparr>)
                | (True, da) \<Rightarrow>
                    (Ok, s2\<lparr>double_array := da,
                            trace := trace s2 @ [KinSetPosition newpos homing_axes,
                                                 SendEvent ''toolhead:set_position'']\<rparr>))
      | (r, s1) \<Rightarrow> (r, s1))"

text \<open>
  \<^verbatim>\<open>record_z_pos\<close>. The write of the file and the update of \<^verbatim>\<open>print_stats\<close> are the body
  shared by the two branches; in the branch of the other kinematics an exception of the
  body is caught and logged.
\<close>

definition store_z_pos :: "env \<Rightarrow> real \<Rightarrow> toolhead \<Rightarrow> outcome \<times> toolhead" where
  "store_z_pos e commanded_pos_z s =
     (if \<bar>commanded_pos_z - z_pos s\<bar> > 5
      then
        let s1 = s\<lparr>z_pos := commanded_pos_z,
                   trace := trace s @ [WriteZPosFile commanded_pos_z]\<rparr>
        in if print_stats_state e = None then (Raise AttributeError, s1)
           else (Ok, s1\<lparr>print_stats_z_pos := z_pos s1\<rparr>)
      else (Ok, s))"

definition record_z_pos :: "env \<Rightarrow> real \<Rightarrow> toolhead \<Rightarrow> outcome \<times> toolhead" where
  "record_z_pos e commanded_pos_z s =
     (if kin_class_is_CoreXY e
      then (if kin_status_for_record_z_pos e then store_z_pos e commanded_pos_z s else (Ok, s))
      else if kin_z_homed e
      then (case store_z_pos e commanded_pos_z s of
              (Raise err, s1) \<Rightarrow> (Ok, s1)
            | (r, s1) \<Rightarrow> (r, s1))
      else (Ok, s))"

text \<open>\<^verbatim>\<open>check_move_out_of_range\<close>: the key of the first axis that is out of its limits, with
  the end point. The caller has read \<^verbatim>\<open>ep[0..3]\<close> before.\<close>

definition check_move_out_of_range :: "env \<Rightarrow> real list \<Rightarrow> command_error" where
  "check_move_out_of_range e ep =
     (case kin_limits e of ((min_x, max_x), (min_y, max_y), (min_z, max_z)) \<Rightarrow>
        MoveOutOfRange
          (if min_x > ep ! 0 \<or> ep ! 0 > max_x then ''key585''
           else if min_y > ep ! 1 \<or> ep ! 1 > max_y then ''key586''
           else if min_z > ep ! 2 \<or> ep ! 2 > max_z then ''key587''
           else ''key243'')
          ep)"

text \<open>
  \<^verbatim>\<open>move\<close>. The native \<^verbatim>\<open>PyMove()\<close> reads the buffer and leaves its return code in slot
  13; the chain of comparisons follows the source, and a code that matches none of them
  falls through to \<^verbatim>\<open>add_move\<close>. \<open>enqueue_move\<close> is the end of the function: the move
  joins the queue, and the stall check runs when the print time has passed
  \<^verbatim>\<open>need_check_stall\<close>.
\<close>

text \<open>The nine assignments to the buffer at the start of \<^verbatim>\<open>move\<close>: slot and value.\<close>

definition move_slots :: "real list \<Rightarrow> real list \<Rightarrow> real \<Rightarrow> (nat \<times> real option) list" where
  "move_slots cp newpos speed =
     [(4, py_index cp 0), (5, py_index cp 1), (6, py_index cp 2), (7, py_index cp 3),
      (8, py_index newpos 0), (9, py_index newpos 1), (10, py_index newpos 2),
      (11, py_index newpos 3), (12, Some speed)]"

definition enqueue_move :: "env \<Rightarrow> pymove \<Rightarrow> toolhead \<Rightarrow> outcome \<times> toolhead" where
  "enqueue_move e mv s3 =
     (case add_move e mv s3 of
        (Ok, s4) \<Rightarrow>
          if print_time s4 > need_check_stall s4 then check_stall e s4 else (Ok, s4)
      | (r, s4) \<Rightarrow> (r, s4))"

definition move :: "env \<Rightarrow> real list \<Rightarrow> real \<Rightarrow> toolhead \<Rightarrow> outcome \<times> toolhead" where
  "move e newpos speed s0 =
     (if length newpos < 3 then (Raise IndexError, s0)
      else case record_z_pos e (newpos ! 2) s0 of
        (Ok, s1) \<Rightarrow>
          (case store_all (move_slots (commanded_pos s1) newpos speed) (double_array s1) of
             (False, da) \<Rightarrow> (Raise IndexError, s1\<lparr>double_array := da\<rparr>)
           | (True, da) \<Rightarrow>
               let ret = fst (PyMove e da);
                   mv = snd (PyMove e da);
                   s2 = s1\<lparr>double_array := da[13 := ret]\<rparr>;
                   code = double_array s2 ! 13;
                   enqueue = enqueue_move e mv
               in if code = 0 then enqueue (s2\<lparr>commanded_pos := newpos\<rparr>)
                  else if code = 1
                  then enqueue (s2\<lparr>commanded_pos := (commanded_pos s2)[3 := newpos ! 3]\<rparr>)
                  else if code = - 4 then (Raise (CommandError ExtrudeBelowMinimumTemp), s2)
                  else if code = - 2 then (Raise (CommandError MustHomeAxisFirst), s2)
                  else if code = - 3
                  then (Raise (CommandError (check_move_out_of_range e newpos)), s2)
                  else if code = - 1 then (Ok, s2)
                  else if code = - 5 then (Raise (CommandError ExtrudeOnlyMoveTooLong), s2)
                  else if code = - 6 then (Raise (CommandError MoveExceedsMaximumExtrusion), s2)
                  else enqueue s2)
      | (r, s1) \<Rightarrow> (r, s1))"

definition dwell :: "env \<Rightarrow> real \<Rightarrow> toolhead \<Rightarrow> outcome \<times> toolhead" where
  "dwell e delay s0 =
     (case get_last_move_time e s0 of
        (Ok, s1) \<Rightarrow>
          let next_print_time = print_time s1 + max 0 delay
          in check_stall e (update_move_time next_print_time s1)
      | (r, s1) \<Rightarrow> (r, s1))"

fun wait_moves_loop :: "nat \<Rightarrow> env \<Rightarrow> real \<Rightarrow> toolhead \<Rightarrow> outcome \<times> toolhead" where
  "wait_moves_loop fuel e eventtime s =
     (if special_queuing_state s = '''' \<or> print_time s \<ge> estimated_print_time e eventtime
      then if \<not> can_pause s then (Ok, s)
           else case fuel of
                  0 \<Rightarrow> (OutOfFuel, s)
                | Suc n \<Rightarrow>
                    let t = reactor_pause e (eventtime + 0.100)
                    in wait_moves_loop n e t (s\<lparr>reactor_time := t\<rparr>)
      else (Ok, s))"

declare wait_moves_loop.simps [simp del]

definition wait_moves :: "env \<Rightarrow> toolhead \<Rightarrow> outcome \<times> toolhead" where
  "wait_moves e s0 =
     (case flush_lookahead e s0 of
        (Ok, s1) \<Rightarrow> wait_moves_loop (pause_rounds e) e (reactor_time s1) s1
      | (r, s1) \<Rightarrow> (r, s1))"

definition drip_move ::
  "env \<Rightarrow> real list \<Rightarrow> real \<Rightarrow> completion \<Rightarrow> toolhead \<Rightarrow> outcome \<times> toolhead" where
  "drip_move e newpos speed c s0 =
     (case dwell e (kin_flush_delay s0) s0 of
        (Ok, s1) \<Rightarrow>
          (case flush e False s1 of
             (Ok, s2) \<Rightarrow>
               let s3 = s2\<lparr>special_queuing_state := ''Drip'',
                           need_check_stall := reactor_NEVER e,
                           flush_timer := reactor_NEVER e\<rparr>;
                   s4 = set_flush_time (buffer_time_high s3) s3;
                   s5 = s4\<lparr>idle_flush_print_time := 0, drip_completion := Some c\<rparr>
               in (case move e newpos speed s5 of
                     (Ok, s6) \<Rightarrow>
                       (case flush e False s6 of
                          (Ok, s7) \<Rightarrow> flush_step_generation e s7
                        | (Raise DripModeEndSignal, s7) \<Rightarrow>
                            flush_step_generation e
                              ((reset s7)\<lparr>trace := trace (reset s7)
                                            @ [TrapqFinalizeMoves (reactor_NEVER e)]\<rparr>)
                        | (r, s7) \<Rightarrow> (r, s7))
                   | (Raise (CommandError err), s6) \<Rightarrow>
                       (case flush_step_generation e s6 of
                          (Ok, s7) \<Rightarrow> (Raise (CommandError err), s7)
                        | (r, s7) \<Rightarrow> (r, s7))
                   | (r, s6) \<Rightarrow> (r, s6))
           | (r, s2) \<Rightarrow> (r, s2))
      | (r, s1) \<Rightarrow> (r, s1))"

subsection \<open>Misc commands\<close>

definition handle_shutdown :: "toolhead \<Rightarrow> toolhead" where
  "handle_shutdown s = reset (s\<lparr>can_pause := False\<rparr>)"

definition note_step_generation_scan_time ::
  "env \<Rightarrow> real \<Rightarrow> real \<Rightarrow> toolhead \<Rightarrow> outcome \<times> toolhead" where
  "note_step_generation_scan_time e delay old_delay s0 =
     (case flush_step_generation e s0 of
        (Ok, s1) \<Rightarrow>
          if old_delay \<noteq> 0 \<and> old_delay \<notin> set (kin_flush_times s1) then (Raise ValueError, s1)
          else
            let s2 = (if old_delay \<noteq> 0
                      then s1\<lparr>kin_flush_times := remove1 old_delay (kin_flush_times s1)\<rparr>
                      else s1);
                s3 = (if delay \<noteq> 0
                      then s2\<lparr>kin_flush_times := kin_flush_times s2 @ [delay]\<rparr> else s2);
                new_delay = foldr max (kin_flush_times s3) SDS_CHECK_TIME
            in (Ok, s3\<lparr>kin_flush_delay := new_delay\<rparr>)
      | (r, s1) \<Rightarrow> (r, s1))"

text \<open>
  \<^verbatim>\<open>register_lookahead_callback\<close>: with an empty queue the callback is called at once with
  the value of \<^verbatim>\<open>get_last_move_time()\<close>; otherwise it joins the list of the tail move.
\<close>

definition register_lookahead_callback :: "env \<Rightarrow> callback \<Rightarrow> toolhead \<Rightarrow> outcome \<times> toolhead" where
  "register_lookahead_callback e cb s0 =
     (case get_last s0 of
        None \<Rightarrow>
          (case get_last_move_time e s0 of
             (Ok, s1) \<Rightarrow> (Ok, s1\<lparr>trace := trace s1 @ [CallbackInvoked cb (print_time s1)]\<rparr>)
           | (r, s1) \<Rightarrow> (r, s1))
      | Some last_move \<Rightarrow>
          (Ok, s0\<lparr>queue := butlast (queue s0) @ [(fst last_move, snd last_move @ [cb])]\<rparr>))"

definition note_kinematic_activity :: "real \<Rightarrow> toolhead \<Rightarrow> toolhead" where
  "note_kinematic_activity kin_time s =
     s\<lparr>last_kin_move_time := max (last_kin_move_time s) kin_time\<rparr>"

definition calc_junction_deviation :: "toolhead \<Rightarrow> outcome \<times> toolhead" where
  "calc_junction_deviation s =
     (let scv2 = (square_corner_velocity s)\<^sup>2
      in if max_accel s = 0 then (Raise ZeroDivisionError, s)
         else
           let jd = scv2 * (sqrt 2 - 1) / max_accel s;
               s1 = s\<lparr>junction_deviation := jd, double_array := (double_array s)[2 := jd]\<rparr>;
               mad = min (requested_accel_to_decel s1) (max_accel s1)
           in (Ok, s1\<lparr>max_accel_to_decel := mad,
                      double_array := (double_array s1)[3 := mad]\<rparr>))"

subsection \<open>G-code commands\<close>

text \<open>
  A G-code command is seen through its parameters: the numeric value given for a name,
  or \<open>None\<close> when the command line does not have it. The accessors of the command
  object belong to the G-code layer; their checks are the ones named by the keyword
  arguments at the call sites (\<^verbatim>\<open>above=0.\<close> rejects a value that is not greater than the
  bound, \<^verbatim>\<open>minval=0.\<close> one that is below it), and a rejected value raises the command
  error.
\<close>

type_synonym gcmd = "string \<Rightarrow> real option"

definition get_float_above :: "gcmd \<Rightarrow> string \<Rightarrow> real \<Rightarrow> command_error + real option" where
  "get_float_above g name bound =
     (case g name of
        None \<Rightarrow> Inr None
      | Some v \<Rightarrow> if v \<le> bound then Inl (GcodeParameterError name) else Inr (Some v))"

definition get_float_minval :: "gcmd \<Rightarrow> string \<Rightarrow> real \<Rightarrow> command_error + real option" where
  "get_float_minval g name minval =
     (case g name of
        None \<Rightarrow> Inr None
      | Some v \<Rightarrow> if v < minval then Inl (GcodeParameterError name) else Inr (Some v))"

text \<open>Python's \<^verbatim>\<open>int(float(x))\<close> drops the fraction: it rounds towards zero.\<close>

definition py_int :: "real \<Rightarrow> int" where
  "py_int x = (if x \<ge> 0 then \<lfloor>x\<rfloor> else \<lceil>x\<rceil>)"

definition cmd_SET_G29_FLAG :: "gcmd \<Rightarrow> toolhead \<Rightarrow> toolhead" where
  "cmd_SET_G29_FLAG g s =
     (let val = (case g ''VALUE'' of None \<Rightarrow> 0 | Some v \<Rightarrow> v)
      in if val = 1 then s\<lparr>G29_flag := True\<rparr> else s\<lparr>G29_flag := False\<rparr>)"

definition cmd_G4 :: "env \<Rightarrow> gcmd \<Rightarrow> toolhead \<Rightarrow> outcome \<times> toolhead" where
  "cmd_G4 e g s =
     (case get_float_minval g ''P'' 0 of
        Inl err \<Rightarrow> (Raise (CommandError err), s)
      | Inr p \<Rightarrow> dwell e ((case p of None \<Rightarrow> 0 | Some v \<Rightarrow> v) / 1000) s)"

definition cmd_M400 :: "env \<Rightarrow> gcmd \<Rightarrow> toolhead \<Rightarrow> outcome \<times> toolhead" where
  "cmd_M400 e g s = wait_moves e s"

text \<open>
  \<^verbatim>\<open>cmd_SET_VELOCITY_LIMIT\<close>. The lines that built \<^verbatim>\<open>msg\<close> are commented out in the
  source, so the name is bound nowhere when the last statement reads it.
\<close>

definition cmd_SET_VELOCITY_LIMIT :: "env \<Rightarrow> gcmd \<Rightarrow> toolhead \<Rightarrow> outcome \<times> toolhead" where
  "cmd_SET_VELOCITY_LIMIT e g s0 =
     (let s1 = s0\<lparr>qmode_flag := custom_macro_qmode_flag e\<rparr>;
          qmode_max_accel = (case Qmode_section e of None \<Rightarrow> 0 | Some (a, d) \<Rightarrow> a);
          qmode_max_accel_to_decel = (case Qmode_section e of None \<Rightarrow> 0 | Some (a, d) \<Rightarrow> d)
      in case get_float_above g ''VELOCITY'' 0 of
           Inl err \<Rightarrow> (Raise (CommandError err), s1)
         | Inr max_velocity_arg \<Rightarrow>
       case get_float_above g ''ACCEL'' 0 of
           Inl err \<Rightarrow> (Raise (CommandError err), s1)
         | Inr max_accel_arg \<Rightarrow>
       case get_float_minval g ''SQUARE_CORNER_VELOCITY'' 0 of
           Inl err \<Rightarrow> (Raise (CommandError err), s1)
         | Inr square_corner_velocity_arg \<Rightarrow>
       case get_float_above g ''ACCEL_TO_DECEL'' 0 of
           Inl err \<Rightarrow> (Raise (CommandError err), s1)
         | Inr requested_accel_to_decel_arg \<Rightarrow>
           let s2 = (case max_velocity_arg of
                       None \<Rightarrow> s1
                     | Some v \<Rightarrow> s1\<lparr>max_velocity := v, double_array := (double_array s1)[1 := v]\<rparr>);
               s3 = (case max_accel_arg of
                       None \<Rightarrow> s2
                     | Some a \<Rightarrow>
                         let a' = (if qmode_flag s2 \<and> a > qmode_max_accel
                                   then qmode_max_accel else a)
                         in s2\<lparr>max_accel := a', double_array := (double_array s2)[0 := a']\<rparr>);
               s4 = (case square_corner_velocity_arg of
                       None \<Rightarrow> s3
                     | Some v \<Rightarrow>
                         s3\<lparr>square_corner_velocity :=
                              (if v > square_corner_max_velocity s3
                               then square_corner_max_velocity s3 else v)\<rparr>);
               s5 = (case requested_accel_to_decel_arg of
                       None \<Rightarrow> s4
                     | Some r \<Rightarrow>
                         s4\<lparr>requested_accel_to_decel :=
                              (if qmode_flag s4 \<and> r > qmode_max_accel_to_decel
                               then qmode_max_accel_to_decel else r)\<rparr>)
           in case calc_junction_deviation s5 of
                (Ok, s6) \<Rightarrow>
                  if max_velocity_arg = None \<and> max_accel_arg = None
                     \<and> square_corner_velocity_arg = None \<and> requested_accel_to_decel_arg = None
                  then (Raise (NameError ''msg''), s6)
                  else (Ok, s6)
              | (r, s6) \<Rightarrow> (r, s6))"

text \<open>
  \<^verbatim>\<open>cmd_M204\<close>. \<open>accel\<close> is \<open>None\<close> where the source leaves the Python value \<^verbatim>\<open>None\<close>
  in it. The last block of the source rewrites the file of the running print with the
  command; the model records the command and counts it.
\<close>

definition cmd_M204 :: "env \<Rightarrow> gcmd \<Rightarrow> toolhead \<Rightarrow> outcome \<times> toolhead" where
  "cmd_M204 e g s0 =
     (let accel_S = py_int (case g ''S'' of None \<Rightarrow> - 1 | Some v \<Rightarrow> v)
      in case (if accel_S \<noteq> - 1 \<and> accel_S \<le> 100 then Inr (Some 100)
               else get_float_above g ''S'' 0) of
           Inl err \<Rightarrow> (Raise (CommandError err), s0)
         | Inr accel \<Rightarrow>
             let finish = (\<lambda>a cmd.
                   let s1 = s0\<lparr>max_accel := a, double_array := (double_array s0)[0 := a]\<rparr>
                   in case calc_junction_deviation s1 of
                        (Ok, s2) \<Rightarrow>
                          if print_stats_state e = Some ''printing'' \<and> virtual_sdcard_present e
                             \<and> count_M204 s2 < 3 \<and> print_file_exists e
                          then (Ok, s2\<lparr>count_M204 := count_M204 s2 + 1,
                                       trace := trace s2 @ [RecordM204 cmd]\<rparr>)
                          else (Ok, s2)
                      | (r, s2) \<Rightarrow> (r, s2))
             in case accel of
                  Some a \<Rightarrow> finish a (M204_S a)
                | None \<Rightarrow>
                    (case get_float_above g ''P'' 0 of
                       Inl err \<Rightarrow> (Raise (CommandError err), s0)
                     | Inr p \<Rightarrow>
                         (case get_float_above g ''T'' 0 of
                            Inl err \<Rightarrow> (Raise (CommandError err), s0)
                          | Inr t \<Rightarrow>
                              (case (p, t) of
                                 (Some pv, Some tv) \<Rightarrow> finish (min pv tv) (M204_P_T pv tv)
                               | _ \<Rightarrow> (Ok, s0\<lparr>trace := trace s0 @ [RespondInfo ''key73'']\<rparr>)))))"

subsection \<open>Construction\<close>

text \<open>
  The options \<^verbatim>\<open>__init__\<close> reads, after the checks of the configuration layer
  (\<^verbatim>\<open>max_velocity\<close>, \<^verbatim>\<open>max_accel\<close>, \<^verbatim>\<open>max_accel_to_decel\<close> and the buffer times above 0,
  \<^verbatim>\<open>buffer_time_high\<close> above \<^verbatim>\<open>buffer_time_low\<close>, the corner velocities not below 0), and
  what it finds around it: the MCUs, whether the first one writes to a file, and the Z
  position stored in the file of the last run.
\<close>

record config =
  cfg_max_velocity :: real
  cfg_max_accel :: real
  cfg_max_accel_to_decel :: "real option"
  cfg_square_corner_velocity :: "real option"
  cfg_square_corner_max_velocity :: "real option"
  cfg_buffer_time_low :: "real option"
  cfg_buffer_time_high :: "real option"
  cfg_buffer_time_start :: "real option"
  cfg_move_flush_time :: "real option"
  cfg_mcus :: "nat list"
  cfg_mcu_is_fileoutput :: bool
  cfg_stored_z_pos :: real
  cfg_reactor_time :: real

definition getfloat :: "real option \<Rightarrow> real \<Rightarrow> real" where
  "getfloat opt dflt = (case opt of None \<Rightarrow> dflt | Some v \<Rightarrow> v)"

definition ToolHead_init :: "config \<Rightarrow> toolhead" where
  "ToolHead_init c =
     (let ma = cfg_max_accel c;
          ratd = getfloat (cfg_max_accel_to_decel c) (ma * 0.5);
          scv = getfloat (cfg_square_corner_velocity c) 5;
          jd = scv\<^sup>2 * (sqrt 2 - 1) / ma;
          mad = min ratd ma;
          btl = getfloat (cfg_buffer_time_low c) 1.000;
          bth = getfloat (cfg_buffer_time_high c) 2.000
      in \<lparr>double_array = [ma, cfg_max_velocity c, jd, mad, 0, 0, 0, 0, 0, 0, 0, 0, 0, 0],
          queue = [],
          junction_flush = bth,
          can_pause = (\<not> cfg_mcu_is_fileoutput c),
          commanded_pos = [0, 0, 0, 0],
          max_velocity = cfg_max_velocity c,
          max_accel = ma,
          requested_accel_to_decel = ratd,
          max_accel_to_decel = mad,
          square_corner_velocity = scv,
          square_corner_max_velocity = getfloat (cfg_square_corner_max_velocity c) 200,
          junction_deviation = jd,
          buffer_time_low = btl,
          buffer_time_high = bth,
          buffer_time_start = getfloat (cfg_buffer_time_start c) 0.250,
          move_flush_time = getfloat (cfg_move_flush_time c) 0.050,
          print_time = 0,
          special_queuing_state = ''Flushed'',
          need_check_stall = - 1,
          flush_timer = 0,
          idle_flush_print_time = 0,
          print_stall = 0,
          drip_completion = None,
          kin_flush_delay = SDS_CHECK_TIME,
          kin_flush_times = [],
          last_kin_flush_time = 0,
          last_kin_move_time = 0,
          step_generators = [],
          all_mcus = cfg_mcus c,
          extruder_last_position = 0,
          z_pos = cfg_stored_z_pos c,
          qmode_flag = False,
          G29_flag = False,
          print_stats_z_pos = 0,
          count_M204 = 0,
          reactor_time = cfg_reactor_time c,
          trace = []\<rparr>)"

definition register_step_generator :: "nat \<Rightarrow> toolhead \<Rightarrow> toolhead" where
  "register_step_generator handler s = s\<lparr>step_generators := step_generators s @ [handler]\<rparr>"

section \<open>Notions used by the properties\<close>

text \<open>The calls one round of \<^verbatim>\<open>_update_move_time\<close> makes, for the print time \<open>pt\<close> it reaches.\<close>

definition round_events :: "real \<Rightarrow> real \<Rightarrow> real \<Rightarrow> toolhead \<Rightarrow> event list" where
  "round_events kfd lkft pt s =
     map (\<lambda>sg. StepGenerator sg (max lkft (pt - kfd))) (step_generators s)
     @ [TrapqFinalizeMoves (max lkft (max lkft (pt - kfd) - kfd)),
        ExtruderUpdateMoveTime (max lkft (max lkft (pt - kfd) - kfd))]
     @ map (\<lambda>m. McuFlushMoves m (max lkft (max lkft (pt - kfd) - move_flush_time s))) (all_mcus s)"

text \<open>
  The fields that the print clock, the move processing and the stall check never write:
  \<open>steady s s'\<close> says they are the same in both states; \<open>untouched\<close> adds the queue.
\<close>

definition steady :: "toolhead \<Rightarrow> toolhead \<Rightarrow> bool" where
  "steady s s' \<longleftrightarrow>
     commanded_pos s' = commanded_pos s
     \<and> double_array s' = double_array s
     \<and> kin_flush_delay s' = kin_flush_delay s \<and> kin_flush_times s' = kin_flush_times s
     \<and> move_flush_time s' = move_flush_time s
     \<and> buffer_time_low s' = buffer_time_low s \<and> buffer_time_high s' = buffer_time_high s
     \<and> buffer_time_start s' = buffer_time_start s
     \<and> can_pause s' = can_pause s \<and> drip_completion s' = drip_completion s
     \<and> step_generators s' = step_generators s \<and> all_mcus s' = all_mcus s
     \<and> last_kin_flush_time s' = last_kin_flush_time s
     \<and> max_accel s' = max_accel s \<and> z_pos s' = z_pos s"

definition untouched :: "toolhead \<Rightarrow> toolhead \<Rightarrow> bool" where
  "untouched s s' \<longleftrightarrow> queue s' = queue s \<and> steady s s'"

text \<open>The outcomes the queue and the clock can produce: none of them is a command error.\<close>

definition internal_outcome :: "outcome \<Rightarrow> bool" where
  "internal_outcome r \<longleftrightarrow>
     r = Ok \<or> r = Raise AttributeError \<or> r = Raise DripModeEndSignal \<or> r = OutOfFuel"

text \<open>The buffer as \<^verbatim>\<open>PyMove()\<close> finds it in \<^verbatim>\<open>move\<close>, for four-element positions.\<close>

definition move_buffer :: "toolhead \<Rightarrow> real list \<Rightarrow> real \<Rightarrow> real list" where
  "move_buffer s newpos speed =
     (double_array s)[4 := commanded_pos s ! 0, 5 := commanded_pos s ! 1,
                      6 := commanded_pos s ! 2, 7 := commanded_pos s ! 3,
                      8 := newpos ! 0, 9 := newpos ! 1, 10 := newpos ! 2, 11 := newpos ! 3,
                      12 := speed]"

text \<open>
  The value the specification gives for the rebased print time:
  \<^verbatim>\<open>max(est + buffer_time_start, last_kin_flush_time + kin_flush_delay + MIN_KIN_TIME)\<close>.
\<close>

definition spec_rebase_time :: "env \<Rightarrow> toolhead \<Rightarrow> real" where
  "spec_rebase_time e s =
     max (estimated_print_time e (reactor_time s) + buffer_time_start s)
         (last_kin_flush_time s + kin_flush_delay s + MIN_KIN_TIME)"

subsection \<open>A concrete printer\<close>

text \<open>
  A configuration with the default options, one MCU whose clock runs with the reactor,
  and native helpers that accept every move, give it one second, and flush all of the
  queue but its tail when asked lazily.
\<close>

definition default_config :: config where
  "default_config =
     \<lparr>cfg_max_velocity = 300, cfg_max_accel = 3000, cfg_max_accel_to_decel = None,
      cfg_square_corner_velocity = None, cfg_square_corner_max_velocity = None,
      cfg_buffer_time_low = None, cfg_buffer_time_high = None,
      cfg_buffer_time_start = None, cfg_move_flush_time = None,
      cfg_mcus = [0], cfg_mcu_is_fileoutput = False, cfg_stored_z_pos = 0,
      cfg_reactor_time = 0\<rparr>"

definition fresh_toolhead :: toolhead where
  "fresh_toolhead = ToolHead_init default_config"

definition example_move :: pymove where
  "example_move = \<lparr>min_move_t = 1, move_tag = 0\<rparr>"

definition example_env :: env where
  "example_env =
     \<lparr>estimated_print_time = (\<lambda>t. t),
      reactor_pause = (\<lambda>t. t),
      reactor_NEVER = 9999999999999999,
      reactor_NOW = 0,
      Py_move_queue_flush_cal = (\<lambda>ms lazy. if lazy then length ms - 1 else length ms),
      trapq_append_from_moveq = (\<lambda>t ms. (t + sum_list (map min_move_t ms), 109999999)),
      PyMove = (\<lambda>da. (0, example_move)),
      kin_class_is_CoreXY = True,
      kin_status_for_record_z_pos = True,
      kin_z_homed = True,
      kin_limits = ((0, 350), (0, 350), (0, 350)),
      print_stats_state = Some ''standby'',
      virtual_sdcard_present = True,
      print_file_exists = False,
      custom_macro_qmode_flag = False,
      Qmode_section = None,
      pause_rounds = 10\<rparr>"

text \<open>The same printer with a validator that answers "must home first" (code -2), and with
  one that reports an extruder-only move (code 1).\<close>

definition must_home_env :: env where
  "must_home_env = example_env\<lparr>PyMove := (\<lambda>da. (- 2, example_move))\<rparr>"

definition extruder_only_env :: env where
  "extruder_only_env = example_env\<lparr>PyMove := (\<lambda>da. (1, example_move))\<rparr>"

text \<open>A toolhead with one move waiting in the lookahead queue.\<close>

definition one_move_queued :: toolhead where
  "one_move_queued = fresh_toolhead\<lparr>queue := [(example_move, [])]\<rparr>"

text \<open>A move whose \<^verbatim>\<open>min_move_t\<close> is longer than the countdown of a fresh queue.\<close>

definition long_move :: pymove where
  "long_move = \<lparr>min_move_t = 3, move_tag = 1\<rparr>"

subsection \<open>Traces\<close>

text \<open>\<open>quiet evs\<close>: no lookahead callback is called in \<open>evs\<close>; \<open>extends_quietly s s'\<close>: the
  trace of \<open>s'\<close> is the trace of \<open>s\<close> followed by such events.\<close>

definition quiet :: "event list \<Rightarrow> bool" where
  "quiet evs \<longleftrightarrow> (\<forall>cb t. CallbackInvoked cb t \<notin> set evs)"

definition extends_quietly :: "toolhead \<Rightarrow> toolhead \<Rightarrow> bool" where
  "extends_quietly s s' \<longleftrightarrow> (\<exists>evs. trace s' = trace s @ evs \<and> quiet evs)"

subsection \<open>Acceleration\<close>

text \<open>What a successful \<^verbatim>\<open>M204\<close> leaves: the acceleration \<open>a\<close> in \<^verbatim>\<open>max_accel\<close> and in slot 0
  of the buffer, and the junction deviation and \<^verbatim>\<open>max_accel_to_decel\<close> recomputed from it.\<close>

definition accel_applied :: "real \<Rightarrow> toolhead \<Rightarrow> toolhead \<Rightarrow> bool" where
  "accel_applied a s s' \<longleftrightarrow>
     max_accel s' = a
     \<and> junction_deviation s' = (square_corner_velocity s)\<^sup>2 * (sqrt 2 - 1) / a
     \<and> max_accel_to_decel s' = min (requested_accel_to_decel s) a
     \<and> double_array s' = (double_array s)[0 := a,
           2 := (square_corner_velocity s)\<^sup>2 * (sqrt 2 - 1) / a,
           3 := min (requested_accel_to_decel s) a]"


subsection \<open>Runs of the concrete printer\<close>

text \<open>\<open>moved_once\<close>: the fresh toolhead after a move to X = 10, which waits in the
  lookahead queue; \<open>with_callback\<close>: the same after a lookahead callback (number 7) has
  been registered on that move; \<open>flushed_with_callback\<close>: then flushed.\<close>

definition moved_once :: toolhead where
  "moved_once = snd (move example_env [10, 0, 0, 0] 60 fresh_toolhead)"

definition with_callback :: toolhead where
  "with_callback = snd (register_lookahead_callback example_env 7 moved_once)"

definition flushed_with_callback :: toolhead where
  "flushed_with_callback = snd (flush_step_generation example_env with_callback)"

text \<open>\<open>noted_activity\<close>: the fresh toolhead after another module has reported kinematic
  activity up to the print time 10; \<open>moved_after_activity\<close>: then a move to X = 10.\<close>

definition noted_activity :: toolhead where
  "noted_activity = note_kinematic_activity 10 fresh_toolhead"

definition moved_after_activity :: toolhead where
  "moved_after_activity = snd (move example_env [10, 0, 0, 0] 60 noted_activity)"


subsection \<open>Quiet mode without its section\<close>

text \<open>\<open>qmode_env\<close>: the concrete printer with the quiet-mode flag of \<^verbatim>\<open>custom_macro\<close> set
  and no \<^verbatim>\<open>[gcode_macro Qmode]\<close> section in the configuration, so that both caps of
  \<^verbatim>\<open>cmd_SET_VELOCITY_LIMIT\<close> keep their initial value 0; \<open>capped_toolhead\<close>: the fresh
  toolhead after \<^verbatim>\<open>SET_VELOCITY_LIMIT ACCEL=5000\<close> on that printer.\<close>

definition qmode_env :: env where
  "qmode_env = example_env\<lparr>custom_macro_qmode_flag := True\<rparr>"

definition capped_toolhead :: toolhead where
  "capped_toolhead = snd (cmd_SET_VELOCITY_LIMIT qmode_env [''ACCEL'' \<mapsto> 5000] fresh_toolhead)"

section \<open>Properties\<close>

lemma update_move_time_step_print_time:
  "print_time (update_move_time_step kfd lkft n s) = min (print_time s + MOVE_BATCH_TIME) n"
  by (simp add: update_move_time_step_def Let_def)

lemma update_move_time_loop_print_time:
  "print_time (update_move_time_loop kfd lkft n s) = n"
proof (induction kfd lkft n s rule: update_move_time_loop.induct)
  case (1 kfd lkft n s)
  show ?case
  proof (cases "n \<le> print_time (update_move_time_step kfd lkft n s)")
    case True
    then show ?thesis
      by (subst update_move_time_loop.simps)
         (simp add: Let_def update_move_time_step_print_time)
  next
    case False
    with 1 show ?thesis
      by (subst update_move_time_loop.simps) (simp add: Let_def)
  qed
qed

lemma update_move_time_step_eq:
  "update_move_time_step kfd lkft n s
     = s\<lparr>print_time := min (print_time s + MOVE_BATCH_TIME) n,
         trace := trace s @ round_events kfd lkft (min (print_time s + MOVE_BATCH_TIME) n) s\<rparr>"
  by (simp add: update_move_time_step_def round_events_def Let_def)

lemma round_events_finalize:
  "TrapqFinalizeMoves (max lkft (max lkft (pt - kfd) - kfd)) \<in> set (round_events kfd lkft pt s)"
  by (simp add: round_events_def)

lemma update_move_time_step_shape:
  "\<exists>evs t. TrapqFinalizeMoves t \<in> set evs \<and> update_move_time_step kfd lkft n s
     = s\<lparr>print_time := min (print_time s + MOVE_BATCH_TIME) n, trace := trace s @ evs\<rparr>"
  using update_move_time_step_eq round_events_finalize by blast

lemma update_move_time_loop_shape:
  "\<exists>evs t. TrapqFinalizeMoves t \<in> set evs \<and>
     update_move_time_loop kfd lkft n s = s\<lparr>print_time := n, trace := trace s @ evs\<rparr>"
proof (induction kfd lkft n s rule: update_move_time_loop.induct)
  case (1 kfd lkft n s)
  obtain evs t0 where evs: "TrapqFinalizeMoves t0 \<in> set evs"
     "update_move_time_step kfd lkft n s
     = s\<lparr>print_time := min (print_time s + MOVE_BATCH_TIME) n, trace := trace s @ evs\<rparr>"
    using update_move_time_step_shape by blast
  show ?case
  proof (cases "n \<le> print_time (update_move_time_step kfd lkft n s)")
    case True
    then have "print_time (update_move_time_step kfd lkft n s) = n"
      by (simp add: update_move_time_step_print_time)
    then have "update_move_time_loop kfd lkft n s = s\<lparr>print_time := n, trace := trace s @ evs\<rparr>"
      using True evs(2) by (subst update_move_time_loop.simps) (simp add: Let_def)
    with evs(1) show ?thesis by blast
  next
    case False
    from 1 [OF refl False] obtain evs' t where e': "TrapqFinalizeMoves t \<in> set evs'"
      "update_move_time_loop kfd lkft n (update_move_time_step kfd lkft n s)
        = (update_move_time_step kfd lkft n s)\<lparr>print_time := n, trace := trace (update_move_time_step kfd lkft n s) @ evs'\<rparr>"
      by blast
    have "update_move_time_loop kfd lkft n s = s\<lparr>print_time := n, trace := trace s @ (evs @ evs')\<rparr>"
      using False e'(2) evs(2) by (subst update_move_time_loop.simps) (simp add: Let_def)
    moreover have "TrapqFinalizeMoves t \<in> set (evs @ evs')" using e'(1) by simp
    ultimately show ?thesis by blast
  qed
qed

text \<open>
  Claim C9. \<^verbatim>\<open>_update_move_time(next_print_time)\<close> runs its loop body at least once (the
  trace gains the \<^verbatim>\<open>trapq_finalize_moves\<close> call of a round) and returns with
  \<^verbatim>\<open>print_time\<close> equal to \<^verbatim>\<open>next_print_time\<close>; when the argument is below the print time at
  entry, the print time goes down to it.
\<close>

theorem C9_update_move_time_reaches_target:
  "print_time (update_move_time n s) = n
   \<and> (\<exists>evs t. TrapqFinalizeMoves t \<in> set evs \<and> trace (update_move_time n s) = trace s @ evs)
   \<and> (n < print_time s \<longrightarrow> print_time (update_move_time n s) < print_time s)"
proof -
  obtain evs t where "TrapqFinalizeMoves t \<in> set evs" "update_move_time n s = s\<lparr>print_time := n, trace := trace s @ evs\<rparr>"
    unfolding update_move_time_def using update_move_time_loop_shape by blast
  then show ?thesis by auto
qed

lemma steady_refl [simp]: "steady s s"
  by (simp add: steady_def)

lemma steady_trans: "steady s s' \<Longrightarrow> steady s' s'' \<Longrightarrow> steady s s''"
  by (simp add: steady_def)

lemma untouched_refl [simp]: "untouched s s"
  by (simp add: untouched_def)

lemma untouched_trans: "untouched s s' \<Longrightarrow> untouched s' s'' \<Longrightarrow> untouched s s''"
  by (auto simp: untouched_def intro: steady_trans)

lemma update_move_time_eq:
  "\<exists>evs t. TrapqFinalizeMoves t \<in> set evs \<and>
     update_move_time n s = s\<lparr>print_time := n, trace := trace s @ evs\<rparr>"
  unfolding update_move_time_def by (rule update_move_time_loop_shape)

lemma untouched_update_move_time: "untouched s (update_move_time n s)"
proof -
  obtain evs where "update_move_time n s = s\<lparr>print_time := n, trace := trace s @ evs\<rparr>"
    using update_move_time_eq by blast
  then show ?thesis by (simp add: untouched_def steady_def)
qed

lemma untouched_calc_print_time: "untouched s (calc_print_time e s)"
  by (simp add: calc_print_time_def Let_def untouched_def steady_def)

lemma untouched_update_drip_move_time_loop:
  "untouched s (snd (update_drip_move_time_loop fuel e fd n s))"
proof (induction fuel arbitrary: s)
  case 0
  show ?case
    by (subst update_drip_move_time_loop.simps)
       (simp add: Let_def split: option.splits)
next
  case (Suc k)
  have a: "untouched s (snd (update_drip_move_time_loop k e fd n (s\<lparr>reactor_time := t\<rparr>)))" for t
    using Suc [of "s\<lparr>reactor_time := t\<rparr>"] by (simp add: untouched_def steady_def)
  have b: "untouched s (snd (update_drip_move_time_loop k e fd n (update_move_time m s)))" for m
    using untouched_trans [OF untouched_update_move_time Suc] .
  show ?case
    by (subst update_drip_move_time_loop.simps)
       (simp add: Let_def a b split: option.splits)
qed

lemma untouched_process_moves: "untouched s (snd (process_moves e ms s))"
proof -
  define s1 where "s1 = (if special_queuing_state s \<noteq> ''''
                then calc_print_time e
                       (if special_queuing_state s \<noteq> ''Drip''
                        then s\<lparr>special_queuing_state := '''',
                                need_check_stall := - 1,
                                flush_timer := reactor_NOW e\<rparr>
                        else s)
                else s)"
  have u1: "untouched s s1"
  proof -
    have "untouched s (s\<lparr>special_queuing_state := '''', need_check_stall := - 1, flush_timer := reactor_NOW e\<rparr>)"
      by (simp add: untouched_def steady_def)
    then show ?thesis
      unfolding s1_def using untouched_trans [OF _ untouched_calc_print_time] by auto
  qed
  define rv where "rv = trapq_append_from_moveq e (print_time s1) (map fst ms)"
  define s3 where "s3 = (let s2 = s1\<lparr>trace := trace s1 @ [TrapqAppendFromMoveq (print_time s1) (length ms)]\<rparr>
     in if snd rv < 109999999 then s2\<lparr>extruder_last_position := snd rv\<rparr> else s2)"
  have u3: "untouched s s3"
    using u1 by (simp add: s3_def Let_def untouched_def steady_def)
  have pm: "process_moves e ms s =
     (case (if special_queuing_state s3 \<noteq> ''''
               then update_drip_move_time e (fst rv) s3 else (Ok, s3)) of
           (Ok, s4) \<Rightarrow> (Ok, (update_move_time (fst rv) s4)\<lparr>last_kin_move_time := fst rv\<rparr>)
         | (r, s4) \<Rightarrow> (r, s4))"
    by (simp only: process_moves_def s1_def rv_def s3_def Let_def)
  have ud: "untouched s (snd (update_drip_move_time e n s3))" for n
    unfolding update_drip_move_time_def Let_def
    using untouched_trans [OF u3 untouched_update_drip_move_time_loop] .
  have fin: "untouched s s4 \<Longrightarrow> untouched s ((update_move_time n s4)\<lparr>last_kin_move_time := n\<rparr>)" for s4 n
    using untouched_trans [OF _ untouched_update_move_time, of s s4 n]
    by (simp add: untouched_def steady_def)
  show ?thesis
  proof (cases "special_queuing_state s3 \<noteq> ''''")
    case True
    obtain r s4 where r: "update_drip_move_time e (fst rv) s3 = (r, s4)" by force
    with ud [of "fst rv"] have "untouched s s4" by simp
    with r True fin show ?thesis
      by (cases r) (simp_all add: pm)
  next
    case False
    with u3 fin show ?thesis by (simp add: pm)
  qed
qed

lemma untouched_check_stall_loop:
  "untouched s (snd (check_stall_loop fuel e t s))"
proof (induction fuel arbitrary: s t)
  case 0
  show ?case
    by (subst check_stall_loop.simps) (simp add: Let_def untouched_def steady_def)
next
  case (Suc k)
  have a: "untouched s (snd (check_stall_loop k e t' (s\<lparr>reactor_time := t'\<rparr>)))" for t'
    using Suc [of "s\<lparr>reactor_time := t'\<rparr>" t'] by (simp add: untouched_def steady_def)
  show ?case
    by (subst check_stall_loop.simps) (simp add: Let_def a, simp add: untouched_def steady_def)
qed

lemma untouched_check_stall: "untouched s (snd (check_stall e s))"
proof -
  define s1 where "s1 = (if special_queuing_state s \<noteq> ''''
                then
                  let sa = (if idle_flush_print_time s \<noteq> 0
                            then
                              let est_print_time = estimated_print_time e (reactor_time s);
                                  sb = (if est_print_time < idle_flush_print_time s
                                        then s\<lparr>print_stall := print_stall s + 1\<rparr> else s)
                              in sb\<lparr>idle_flush_print_time := 0\<rparr>
                            else s)
                  in sa\<lparr>special_queuing_state := ''Priming'',
                        need_check_stall := - 1,
                        flush_timer := reactor_time s + 0.100\<rparr>
                else s)"
  have u1: "untouched s s1"
    by (simp add: s1_def Let_def untouched_def steady_def)
  obtain r ret est s2 where l: "check_stall_loop (pause_rounds e) e (reactor_time s) s1 = ((r, ret, est), s2)"
    by (metis prod.exhaust)
  have u2: "untouched s s2"
    using untouched_trans [OF u1 untouched_check_stall_loop [of s1 "pause_rounds e" e "reactor_time s"]] l
    by simp
  have cs: "check_stall e s = (case check_stall_loop (pause_rounds e) e (reactor_time s) s1 of
           ((Ok, returned, est_print_time), s2) \<Rightarrow>
             if returned then (Ok, s2)
             else (Ok, if special_queuing_state s2 = ''''
                       then s2\<lparr>need_check_stall :=
                                 est_print_time + buffer_time_high s2 + 0.100\<rparr>
                       else s2)
         | ((r, returned, est_print_time), s2) \<Rightarrow> (r, s2))"
    by (simp only: check_stall_def s1_def Let_def)
  show ?thesis
    unfolding cs l using u2 by (cases r) (simp_all add: untouched_def steady_def)
qed

lemma flush_empty: "queue s = [] \<Longrightarrow> flush e lazy s = (Ok, s\<lparr>junction_flush := LOOKAHEAD_FLUSH_TIME\<rparr>)"
  by (simp add: flush_def Let_def)

lemma flush_nonempty:
  "queue s \<noteq> [] \<Longrightarrow> flush e lazy s =
     (let s2 = s\<lparr>junction_flush := LOOKAHEAD_FLUSH_TIME,
                   trace := trace s @ [PyMoveQueueFlushCal (length (queue s)) lazy]\<rparr>;
          flush_count = Py_move_queue_flush_cal e (map fst (queue s)) lazy
      in if flush_count \<noteq> 0
         then case process_moves e (take flush_count (queue s)) s2 of
                (Ok, s3) \<Rightarrow>
                  (Ok, s3\<lparr>trace := trace s3 @ [PyMoveQueueDel flush_count],
                          queue := drop flush_count (queue s3)\<rparr>)
              | (r, s3) \<Rightarrow> (r, s3)
         else (Ok, s2))"
  by (simp add: flush_def Let_def split: prod.splits outcome.splits)

lemma steady_flush: "steady s (snd (flush e lazy s))"
proof (cases "queue s = []")
  case True
  then show ?thesis by (simp add: flush_empty steady_def)
next
  case False
  define s2 where "s2 = s\<lparr>junction_flush := LOOKAHEAD_FLUSH_TIME,
                   trace := trace s @ [PyMoveQueueFlushCal (length (queue s)) lazy]\<rparr>"
  have u2: "steady s s2" by (simp add: s2_def steady_def)
  define k where "k = Py_move_queue_flush_cal e (map fst (queue s)) lazy"
  obtain r s3 where pm: "process_moves e (take k (queue s)) s2 = (r, s3)" by force
  have "untouched s2 s3" using untouched_process_moves [of s2 e "take k (queue s)"] pm by simp
  then have u3: "steady s s3" using u2 steady_trans by (auto simp: untouched_def)
  then have u4: "steady s (s3\<lparr>trace := trace s3 @ [PyMoveQueueDel k], queue := drop k (queue s3)\<rparr>)"
    by (simp add: steady_def)
  show ?thesis
    using False u2 u3 u4 pm
    by (cases r) (simp_all add: flush_nonempty Let_def s2_def [symmetric] k_def [symmetric])
qed

lemma steady_add_move: "steady s (snd (add_move e mv s))"
proof -
  have a: "steady s (snd (flush e True (s\<lparr>queue := queue s @ [(mv, [])],
              junction_flush := junction_flush s - min_move_t mv\<rparr>)))"
    by (rule steady_trans [OF _ steady_flush]) (simp add: steady_def)
  show ?thesis
    by (simp add: add_move_def Let_def a) (simp add: steady_def)
qed

lemma internal_simps [simp]:
  "internal_outcome Ok" "internal_outcome OutOfFuel"
  "internal_outcome (Raise AttributeError)" "internal_outcome (Raise DripModeEndSignal)"
  "\<not> internal_outcome (Raise (CommandError c))"
  by (simp_all add: internal_outcome_def)

lemma internal_update_drip_move_time_loop:
  "internal_outcome (fst (update_drip_move_time_loop fuel e fd n s))"
proof (induction fuel arbitrary: s)
  case 0
  show ?case
    by (subst update_drip_move_time_loop.simps)
       (simp add: Let_def split: option.splits)
next
  case (Suc k)
  show ?case
    by (subst update_drip_move_time_loop.simps)
       (simp add: Let_def Suc split: option.splits)
qed

lemma internal_process_moves: "internal_outcome (fst (process_moves e ms s))"
proof -
  have a: "internal_outcome (fst (case x of (Ok, s4) \<Rightarrow> (Ok, f s4) | (r, s4) \<Rightarrow> (r, s4)))"
    if "internal_outcome (fst x)" for x :: "outcome \<times> toolhead" and f
    using that by (cases x; cases "fst x") (auto simp: internal_outcome_def)
  have b: "internal_outcome (fst (if c then update_drip_move_time e n s3 else (Ok, s3)))" for c n s3
    by (simp add: update_drip_move_time_def Let_def internal_update_drip_move_time_loop)
  show ?thesis
    unfolding process_moves_def Let_def by (rule a) (rule b)
qed

lemma internal_flush: "internal_outcome (fst (flush e lazy s))"
proof (cases "queue s = []")
  case True
  then show ?thesis by (simp add: flush_empty)
next
  case False
  define k where "k = Py_move_queue_flush_cal e (map fst (queue s)) lazy"
  define s2 where "s2 = s\<lparr>junction_flush := LOOKAHEAD_FLUSH_TIME,
                   trace := trace s @ [PyMoveQueueFlushCal (length (queue s)) lazy]\<rparr>"
  obtain r s3 where pm: "process_moves e (take k (queue s)) s2 = (r, s3)" by force
  with internal_process_moves [of e "take k (queue s)" s2] have "internal_outcome r" by simp
  then show ?thesis
    using False pm
    by (cases r) (simp_all add: flush_nonempty Let_def s2_def [symmetric] k_def [symmetric])
qed

lemma internal_add_move: "internal_outcome (fst (add_move e mv s))"
  by (simp add: add_move_def Let_def internal_flush)

lemma internal_check_stall_loop: "internal_outcome (fst (fst (check_stall_loop fuel e t s)))"
proof (induction fuel arbitrary: s t)
  case 0
  show ?case
    by (subst check_stall_loop.simps) (simp add: Let_def)
next
  case (Suc k)
  show ?case
    by (subst check_stall_loop.simps) (simp add: Let_def Suc)
qed

lemma internal_check_stall: "internal_outcome (fst (check_stall e s))"
proof -
  have a: "internal_outcome (fst (case x of
               ((Ok, ret, est), s2) \<Rightarrow> if ret then (Ok, s2) else (Ok, g est s2)
             | ((r, ret, est), s2) \<Rightarrow> (r, s2)))"
    if "internal_outcome (fst (fst x))" for x :: "(outcome \<times> bool \<times> real) \<times> toolhead" and g
  proof -
    obtain r ret est s2 where x: "x = ((r, ret, est), s2)" by (metis prod.exhaust)
    with that have "internal_outcome r" by simp
    then show ?thesis unfolding x by (cases r) simp_all
  qed
  show ?thesis
    unfolding check_stall_def Let_def by (rule a) (rule internal_check_stall_loop)
qed

lemma internal_enqueue_move: "internal_outcome (fst (enqueue_move e mv s))"
proof -
  obtain r s4 where a: "add_move e mv s = (r, s4)" by force
  with internal_add_move [of e mv s] have "internal_outcome r" by simp
  then show ?thesis
    unfolding enqueue_move_def a using internal_check_stall [of e s4]
    by (cases r) (auto simp: internal_outcome_def)
qed

lemma steady_enqueue_move: "steady s (snd (enqueue_move e mv s))"
proof -
  obtain r s4 where a: "add_move e mv s = (r, s4)" by force
  with steady_add_move [of s e mv] have s4: "steady s s4" by simp
  have "steady s (snd (check_stall e s4))"
    using steady_trans [OF s4] untouched_check_stall [of s4 e] by (simp add: untouched_def)
  with s4 show ?thesis
    unfolding enqueue_move_def a by (cases r) auto
qed

lemma record_z_pos_frame:
  "commanded_pos (snd (record_z_pos e z s)) = commanded_pos s
   \<and> queue (snd (record_z_pos e z s)) = queue s
   \<and> double_array (snd (record_z_pos e z s)) = double_array s"
  by (simp add: record_z_pos_def store_z_pos_def Let_def)

lemma record_z_pos_outcome:
  "fst (record_z_pos e z s) = Ok \<or> fst (record_z_pos e z s) = Raise AttributeError"
  by (simp add: record_z_pos_def store_z_pos_def Let_def)

lemma enqueue_move_not_command_error:
  "enqueue_move e mv x \<noteq> (Raise (CommandError err), s')"
  using internal_enqueue_move [of e mv x] by (metis fst_conv internal_simps(5))

text \<open>
  Claim C7. When \<^verbatim>\<open>move\<close> raises a command error (the validator's codes -2 to -6 are the
  only source of one), the state it leaves has the commanded position and the move queue
  of the state it started from.
\<close>

theorem C7_validation_error_frame:
  assumes "move e newpos speed s = (Raise (CommandError err), s')"
  shows "commanded_pos s' = commanded_pos s \<and> queue s' = queue s"
proof -
  have len: "\<not> length newpos < 3"
    using assms by (auto simp: move_def)
  obtain r1 s1 where rz: "record_z_pos e (newpos ! 2) s = (r1, s1)" by force
  have r1: "r1 = Ok"
    using assms len rz record_z_pos_outcome [of e "newpos ! 2" s] by (auto simp: move_def)
  have f1: "commanded_pos s1 = commanded_pos s" "queue s1 = queue s"
    using record_z_pos_frame [of e "newpos ! 2" s] rz by simp_all
  obtain b da where st:
    "store_all (move_slots (commanded_pos s1) newpos speed) (double_array s1) = (b, da)"
    by force
  have b: "b"
    using assms len rz r1 st by (cases b) (auto simp: move_def)
  define s2 where "s2 = s1\<lparr>double_array := da[13 := fst (PyMove e da)]\<rparr>"
  define mv where "mv = snd (PyMove e da)"
  define code where "code = double_array s2 ! 13"
  have mv_eq: "move e newpos speed s =
     (if code = 0 then enqueue_move e mv (s2\<lparr>commanded_pos := newpos\<rparr>)
      else if code = 1
      then enqueue_move e mv (s2\<lparr>commanded_pos := (commanded_pos s2)[3 := newpos ! 3]\<rparr>)
      else if code = - 4 then (Raise (CommandError ExtrudeBelowMinimumTemp), s2)
      else if code = - 2 then (Raise (CommandError MustHomeAxisFirst), s2)
      else if code = - 3
      then (Raise (CommandError (check_move_out_of_range e newpos)), s2)
      else if code = - 1 then (Ok, s2)
      else if code = - 5 then (Raise (CommandError ExtrudeOnlyMoveTooLong), s2)
      else if code = - 6 then (Raise (CommandError MoveExceedsMaximumExtrusion), s2)
      else enqueue_move e mv s2)"
    using len rz r1 st b by (simp add: move_def Let_def s2_def mv_def code_def)
  have "s' = s2"
    using assms enqueue_move_not_command_error [of e mv _ err s']
    unfolding mv_eq by (auto split: if_splits)
  then show ?thesis
    using f1 by (simp add: s2_def)
qed

lemma store_all_move_buffer:
  assumes "length newpos = 4" "length cp = 4"
  shows "store_all (move_slots cp newpos speed) da
         = (True, da[4 := cp ! 0, 5 := cp ! 1, 6 := cp ! 2, 7 := cp ! 3,
                      8 := newpos ! 0, 9 := newpos ! 1, 10 := newpos ! 2, 11 := newpos ! 3,
                      12 := speed])"
  using assms by (simp add: py_index_def move_slots_def)

text \<open>
  Claim C10. When the validator stores the return code 1 in slot 13 of the buffer, \<^verbatim>\<open>move\<close>
  leaves \<^verbatim>\<open>commanded_pos\<close> with element 3 set to \<^verbatim>\<open>newpos[3]\<close> and elements 0, 1 and 2 as
  they were, whatever the queue, the flush and the stall check do afterwards.
\<close>

theorem C10_extruder_only_move:
  assumes "length newpos = 4" and "length (commanded_pos s) = 4"
    and "length (double_array s) = 14"
    and "fst (record_z_pos e (newpos ! 2) s) = Ok"
    and "fst (PyMove e (move_buffer s newpos speed)) = 1"
  shows "commanded_pos (snd (move e newpos speed s)) = (commanded_pos s)[3 := newpos ! 3]
     \<and> commanded_pos (snd (move e newpos speed s)) ! 3 = newpos ! 3
     \<and> commanded_pos (snd (move e newpos speed s)) ! 0 = commanded_pos s ! 0
     \<and> commanded_pos (snd (move e newpos speed s)) ! 1 = commanded_pos s ! 1
     \<and> commanded_pos (snd (move e newpos speed s)) ! 2 = commanded_pos s ! 2"
proof -
  obtain s1 where rz: "record_z_pos e (newpos ! 2) s = (Ok, s1)"
    using assms(4) by (metis prod.collapse)
  have f1: "commanded_pos s1 = commanded_pos s" "double_array s1 = double_array s"
    using record_z_pos_frame [of e "newpos ! 2" s] rz by simp_all
  define da where "da = move_buffer s newpos speed"
  have lda: "length da = 14" by (simp add: da_def move_buffer_def assms(3))
  define s2 where "s2 = s1\<lparr>double_array := da[13 := fst (PyMove e da)]\<rparr>"
  have code: "double_array s2 ! 13 = 1"
    using assms(5) lda by (simp add: s2_def da_def)
  have st: "store_all (move_slots (commanded_pos s1) newpos speed) (double_array s1) = (True, da)"
    unfolding f1 da_def move_buffer_def
    by (rule store_all_move_buffer [OF assms(1) assms(2)])
  have mv_eq: "move e newpos speed s =
      enqueue_move e (snd (PyMove e da)) (s2\<lparr>commanded_pos := (commanded_pos s2)[3 := newpos ! 3]\<rparr>)"
    using assms(1) rz code st lda by (simp add: move_def Let_def s2_def)
  have "commanded_pos (snd (move e newpos speed s))
        = commanded_pos (s2\<lparr>commanded_pos := (commanded_pos s2)[3 := newpos ! 3]\<rparr>)"
    unfolding mv_eq using steady_enqueue_move by (simp add: steady_def)
  then have eq: "commanded_pos (snd (move e newpos speed s)) = (commanded_pos s)[3 := newpos ! 3]"
    by (simp add: s2_def f1)
  show ?thesis
    unfolding eq using assms(2) by simp
qed

lemmas example_defs = fresh_toolhead_def ToolHead_init_def default_config_def example_env_def
  example_move_def getfloat_def Let_def
  LOOKAHEAD_FLUSH_TIME_def MIN_KIN_TIME_def MOVE_BATCH_TIME_def SDS_CHECK_TIME_def
  DRIP_SEGMENT_TIME_def DRIP_TIME_def

text \<open>
  Claim C3, as stated, fails: with \<^verbatim>\<open>est_print_time\<close> = 0, \<^verbatim>\<open>last_kin_flush_time\<close> = 1,
  \<^verbatim>\<open>kin_flush_delay\<close> = 0.001 and \<^verbatim>\<open>buffer_time_start\<close> = 0.25 the value of the
  specification is 1.101 and exceeds the print time 0, but the code sets the print time
  to 1.001.
\<close>

theorem C3_counterexample:
  "spec_rebase_time example_env (fresh_toolhead\<lparr>last_kin_flush_time := 1\<rparr>)
     > print_time (fresh_toolhead\<lparr>last_kin_flush_time := 1\<rparr>)
   \<and> print_time (calc_print_time example_env (fresh_toolhead\<lparr>last_kin_flush_time := 1\<rparr>))
     \<noteq> spec_rebase_time example_env (fresh_toolhead\<lparr>last_kin_flush_time := 1\<rparr>)"
  by (simp add: spec_rebase_time_def calc_print_time_def example_defs)

text \<open>
  Claim C3, amended. \<^verbatim>\<open>_calc_print_time\<close> rebases the print time to
  \<^verbatim>\<open>max(est + buffer_time_start, max(est + MIN_KIN_TIME, last_kin_flush_time) + kin_flush_delay)\<close>
  whenever that value exceeds the current print time, and then sends
  \<^verbatim>\<open>toolhead:sync_print_time(now, est, print_time)\<close>; nothing else changes.
\<close>

theorem C3_rebase:
  assumes "est = estimated_print_time e (reactor_time s)"
    and "t = max (est + buffer_time_start s)
                 (max (est + MIN_KIN_TIME) (last_kin_flush_time s) + kin_flush_delay s)"
    and "t > print_time s"
  shows "calc_print_time e s
         = s\<lparr>print_time := t, trace := trace s @ [SyncPrintTime (reactor_time s) est t]\<rparr>"
  using assms by (simp add: calc_print_time_def Let_def)

text \<open>
  The rebase at the input of the counterexample.
\<close>

theorem C3_rebase_witness:
  "calc_print_time example_env (fresh_toolhead\<lparr>last_kin_flush_time := 1\<rparr>)
     = fresh_toolhead\<lparr>last_kin_flush_time := 1, print_time := 1.001,
          trace := [SyncPrintTime 0 0 1.001]\<rparr>"
  using C3_rebase [of 0 example_env "fresh_toolhead\<lparr>last_kin_flush_time := 1\<rparr>" "1.001"]
  by (simp add: example_defs)

lemma calc_print_time_idle:
  assumes "max (estimated_print_time e (reactor_time s) + buffer_time_start s)
               (max (estimated_print_time e (reactor_time s) + MIN_KIN_TIME) (last_kin_flush_time s)
                 + kin_flush_delay s) \<le> print_time s"
  shows "calc_print_time e s = s"
proof -
  have "\<not> max (estimated_print_time e (reactor_time s) + buffer_time_start s)
               (max (estimated_print_time e (reactor_time s) + MIN_KIN_TIME) (last_kin_flush_time s)
                 + kin_flush_delay s) > print_time s"
    using assms by linarith
  then show ?thesis
    unfolding calc_print_time_def Let_def by (rule if_not_P)
qed

lemma update_move_time_loop_last:
  "n \<le> print_time s + MOVE_BATCH_TIME \<Longrightarrow>
     update_move_time_loop kfd lkft n s = update_move_time_step kfd lkft n s"
  by (subst update_move_time_loop.simps)
     (simp add: Let_def update_move_time_step_print_time)

lemma update_move_time_loop_more:
  "print_time s + MOVE_BATCH_TIME < n \<Longrightarrow>
     update_move_time_loop kfd lkft n s
       = update_move_time_loop kfd lkft n (update_move_time_step kfd lkft n s)"
  by (subst update_move_time_loop.simps)
     (simp add: Let_def update_move_time_step_print_time)

lemma flush_full_queue_empty:
  assumes "flush e False s0 = (Ok, sa)"
    and "length (queue s0) \<le> Py_move_queue_flush_cal e (map fst (queue s0)) False"
  shows "queue sa = []"
proof (cases "queue s0 = []")
  case True
  with assms(1) show ?thesis by (auto simp: flush_empty)
next
  case False
  define k where "k = Py_move_queue_flush_cal e (map fst (queue s0)) False"
  define s2 where "s2 = s0\<lparr>junction_flush := LOOKAHEAD_FLUSH_TIME,
                   trace := trace s0 @ [PyMoveQueueFlushCal (length (queue s0)) False]\<rparr>"
  have k: "length (queue s0) \<le> k" "k \<noteq> 0"
    using assms(2) False by (cases "queue s0"; simp add: k_def)+
  obtain r s3 where pm: "process_moves e (take k (queue s0)) s2 = (r, s3)" by force
  have q3: "queue s3 = queue s0"
    using untouched_process_moves [of s2 e "take k (queue s0)"] pm
    by (simp add: untouched_def s2_def)
  show ?thesis
    using assms(1) False pm k q3
    by (cases r) (auto simp: flush_nonempty Let_def s2_def [symmetric] k_def [symmetric])
qed

lemma flush_step_generation_empty:
  assumes "queue s = []"
  shows "flush_step_generation e s =
     (Ok, update_move_time
            (max (print_time s)
               (max (last_kin_flush_time s)
                  (max (last_kin_move_time s + kin_flush_delay s)
                       (print_time s - kin_flush_delay s))))
            (s\<lparr>special_queuing_state := ''Flushed'', need_check_stall := - 1,
               flush_timer := reactor_NEVER e, junction_flush := buffer_time_high s,
               idle_flush_print_time := 0,
               last_kin_flush_time :=
                 max (last_kin_flush_time s)
                   (max (last_kin_move_time s + kin_flush_delay s)
                        (print_time s - kin_flush_delay s))\<rparr>))"
  by (simp add: flush_step_generation_def flush_empty [OF assms] Let_def set_flush_time_def)

text \<open>
  Claim C4. After a call of \<^verbatim>\<open>flush_step_generation\<close> that returned, a second call returns
  and leaves every field of the state as the first call left it; only the trace of calls
  to the collaborators grows. The scan window is not negative (it is at least
  \<^verbatim>\<open>SDS_CHECK_TIME\<close>), and the native planner, asked for a full flush, hands over all
  queued moves.
\<close>

theorem C4_flush_step_generation_idempotent:
  assumes first: "flush_step_generation e s0 = (Ok, s1)"
    and kfd: "0 \<le> kin_flush_delay s0"
    and full: "length (queue s0) \<le> Py_move_queue_flush_cal e (map fst (queue s0)) False"
  shows "\<exists>evs. flush_step_generation e s1 = (Ok, s1\<lparr>trace := trace s1 @ evs\<rparr>)"
proof -
  obtain r sa where fl: "flush e False s0 = (r, sa)" by force
  have r: "r = Ok"
    using first fl by (cases r) (auto simp: flush_step_generation_def)
  note fl = fl [unfolded r]
  have qa: "queue sa = []"
    using flush_full_queue_empty [OF fl full] .
  have ka: "0 \<le> kin_flush_delay sa"
    using steady_flush [of s0 e False] fl kfd by (simp add: steady_def)
  define L where "L = max (last_kin_flush_time sa)
      (max (last_kin_move_time sa + kin_flush_delay sa) (print_time sa - kin_flush_delay sa))"
  define N where "N = max (print_time sa) L"
  define s5 where "s5 = sa\<lparr>special_queuing_state := ''Flushed'', need_check_stall := - 1,
      flush_timer := reactor_NEVER e, junction_flush := buffer_time_high sa,
      idle_flush_print_time := 0, last_kin_flush_time := L\<rparr>"
  have s1: "s1 = update_move_time N s5"
    using first fl
    by (simp add: flush_step_generation_def Let_def set_flush_time_def s5_def N_def L_def)
  obtain evs where evs: "update_move_time N s5 = s5\<lparr>print_time := N, trace := trace s5 @ evs\<rparr>"
    using update_move_time_eq by blast
  have s1': "s1 = sa\<lparr>special_queuing_state := ''Flushed'', need_check_stall := - 1,
      flush_timer := reactor_NEVER e, junction_flush := buffer_time_high sa,
      idle_flush_print_time := 0, last_kin_flush_time := L, print_time := N,
      trace := trace sa @ evs\<rparr>"
    unfolding s1 evs by (simp add: s5_def)
  have q1: "queue s1 = []" by (simp add: s1' qa)
  have L2: "max L (max (last_kin_move_time sa + kin_flush_delay sa) (N - kin_flush_delay sa)) = L"
    using ka unfolding N_def L_def by linarith
  have N2: "max N L = N" by (simp add: N_def)
  have same: "s1\<lparr>special_queuing_state := ''Flushed'', need_check_stall := - 1,
              flush_timer := reactor_NEVER e, junction_flush := buffer_time_high s1,
              idle_flush_print_time := 0, last_kin_flush_time := L\<rparr> = s1"
    by (rule toolhead.equality) (simp_all add: s1')
  have second: "flush_step_generation e s1 = (Ok, update_move_time N s1)"
  proof -
    have "last_kin_move_time s1 = last_kin_move_time sa" "kin_flush_delay s1 = kin_flush_delay sa"
      "print_time s1 = N" "last_kin_flush_time s1 = L"
      by (simp_all add: s1')
    then show ?thesis
      using flush_step_generation_empty [OF q1, of e] L2 N2 same by simp
  qed
  obtain evs' where "update_move_time N s1 = s1\<lparr>print_time := N, trace := trace s1 @ evs'\<rparr>"
    using update_move_time_eq by blast
  moreover have "s1\<lparr>print_time := N, trace := trace s1 @ evs'\<rparr> = s1\<lparr>trace := trace s1 @ evs'\<rparr>"
    by (simp add: s1')
  ultimately show ?thesis
    using second by auto
qed

lemmas run_defs = move_def record_z_pos_def store_z_pos_def move_slots_def py_index_def
  enqueue_move_def add_move_def check_stall_def check_stall_loop.simps
  flush_step_generation_def flush_def process_moves_def calc_print_time_def
  update_move_time_def update_move_time_loop_last update_move_time_loop_more
  update_move_time_step_def set_flush_time_def note_kinematic_activity_def
  register_lookahead_callback_def get_last_def get_last_move_time_def flush_lookahead_def
  must_home_env_def extruder_only_env_def one_move_queued_def long_move_def

text \<open>
  At a print time of 3 and a target of 1 the print time ends at 1.
\<close>

theorem C9_witness:
  "(1::real) < print_time (fresh_toolhead\<lparr>print_time := 3\<rparr>)
   \<and> print_time (update_move_time 1 (fresh_toolhead\<lparr>print_time := 3\<rparr>)) = 1
   \<and> print_time (update_move_time 1 (fresh_toolhead\<lparr>print_time := 3\<rparr>)) < 3"
  using C9_update_move_time_reaches_target [of 1 "fresh_toolhead\<lparr>print_time := 3\<rparr>"] by simp

text \<open>
  A move that the validator rejects with "must home first" leaves the position at the
  origin and the queue empty.
\<close>

theorem C7_witness:
  "fst (move must_home_env [10, 0, 0, 0] 60 fresh_toolhead) = Raise (CommandError MustHomeAxisFirst)
   \<and> commanded_pos (snd (move must_home_env [10, 0, 0, 0] 60 fresh_toolhead)) = [0, 0, 0, 0]
   \<and> queue (snd (move must_home_env [10, 0, 0, 0] 60 fresh_toolhead)) = []"
proof -
  have r: "fst (move must_home_env [10, 0, 0, 0] 60 fresh_toolhead)
             = Raise (CommandError MustHomeAxisFirst)"
    by (simp add: run_defs example_defs)
  then have h: "move must_home_env [10, 0, 0, 0] 60 fresh_toolhead
      = (Raise (CommandError MustHomeAxisFirst),
         snd (move must_home_env [10, 0, 0, 0] 60 fresh_toolhead))"
    by (metis prod.collapse)
  have "commanded_pos fresh_toolhead = [0, 0, 0, 0]" "queue fresh_toolhead = []"
    by (simp_all add: example_defs)
  with r C7_validation_error_frame [OF h] show ?thesis by simp
qed

text \<open>
  An extruder-only move to E = 5 on the fresh toolhead.
\<close>

theorem C10_witness:
  "fst (PyMove extruder_only_env (move_buffer fresh_toolhead [0, 0, 0, 5] 60)) = 1
   \<and> commanded_pos (snd (move extruder_only_env [0, 0, 0, 5] 60 fresh_toolhead)) = [0, 0, 0, 5]"
proof -
  have h: "length [0, 0, 0, 5 :: real] = 4" "length (commanded_pos fresh_toolhead) = 4"
    "length (double_array fresh_toolhead) = 14"
    "fst (record_z_pos extruder_only_env ([0, 0, 0, 5] ! 2) fresh_toolhead) = Ok"
    "fst (PyMove extruder_only_env (move_buffer fresh_toolhead [0, 0, 0, 5] 60)) = 1"
    by (simp_all add: example_defs extruder_only_env_def record_z_pos_def store_z_pos_def)
  have "commanded_pos fresh_toolhead = [0, 0, 0, 0]"
    by (simp add: example_defs)
  with h(5) C10_extruder_only_move [OF h] show ?thesis by simp
qed

lemma process_moves_not_drip:
  assumes "special_queuing_state s \<noteq> ''Drip''"
  shows "fst (process_moves e ms s) = Ok"
  using assms by (simp add: process_moves_def calc_print_time_def Let_def)

lemma flush_not_drip:
  assumes "special_queuing_state s \<noteq> ''Drip''"
  shows "fst (flush e lazy s) = Ok"
proof (cases "queue s = []")
  case True
  then show ?thesis by (simp add: flush_empty)
next
  case False
  define k where "k = Py_move_queue_flush_cal e (map fst (queue s)) lazy"
  define s2 where "s2 = s\<lparr>junction_flush := LOOKAHEAD_FLUSH_TIME,
                   trace := trace s @ [PyMoveQueueFlushCal (length (queue s)) lazy]\<rparr>"
  have "special_queuing_state s2 \<noteq> ''Drip''" using assms by (simp add: s2_def)
  then have "fst (process_moves e (take k (queue s)) s2) = Ok"
    by (rule process_moves_not_drip)
  then obtain s3 where pm: "process_moves e (take k (queue s)) s2 = (Ok, s3)"
    by (metis prod.collapse)
  show ?thesis
    using False pm
    by (simp add: flush_nonempty Let_def s2_def [symmetric] k_def [symmetric])
qed

lemma flush_step_generation_not_drip:
  assumes "special_queuing_state s \<noteq> ''Drip''"
  shows "fst (flush_step_generation e s) = Ok"
proof -
  obtain sa where "flush e False s = (Ok, sa)"
    using flush_not_drip [OF assms, of e False] by (metis prod.collapse)
  then show ?thesis by (simp add: flush_step_generation_def Let_def)
qed

text \<open>
  Two flushes in a row of a toolhead with one queued move.
\<close>

theorem C4_witness:
  "fst (flush_step_generation example_env one_move_queued) = Ok
   \<and> (\<exists>evs. flush_step_generation example_env (snd (flush_step_generation example_env one_move_queued))
        = (Ok, (snd (flush_step_generation example_env one_move_queued))
                 \<lparr>trace := trace (snd (flush_step_generation example_env one_move_queued)) @ evs\<rparr>))"
proof -
  have "special_queuing_state one_move_queued \<noteq> ''Drip''"
    by (simp add: one_move_queued_def example_defs)
  then have r: "fst (flush_step_generation example_env one_move_queued) = Ok"
    by (rule flush_step_generation_not_drip)
  then have h: "flush_step_generation example_env one_move_queued
       = (Ok, snd (flush_step_generation example_env one_move_queued))"
    by (metis prod.collapse)
  have k: "0 \<le> kin_flush_delay one_move_queued"
    by (simp add: one_move_queued_def example_defs)
  have f: "length (queue one_move_queued)
        \<le> Py_move_queue_flush_cal example_env (map fst (queue one_move_queued)) False"
    by (simp add: one_move_queued_def example_defs)
  from r C4_flush_step_generation_idempotent [OF h k f] show ?thesis by simp
qed

lemmas velocity_limit_defs = cmd_SET_VELOCITY_LIMIT_def get_float_above_def
  get_float_minval_def calc_junction_deviation_def

text \<open>
  Claim C8, as stated, fails. With the quiet-mode flag set and no Qmode section,
  \<^verbatim>\<open>SET_VELOCITY_LIMIT ACCEL=5000\<close> stores the cap 0 as \<^verbatim>\<open>max_accel\<close> (and ends in the division
  by it). The command without parameters then stops in \<^verbatim>\<open>_calc_junction_deviation\<close> with
  the division by zero, before the line that reads \<^verbatim>\<open>msg\<close>: the error is not the
  undefined-name error.
\<close>

theorem C8_counterexample:
  "fst (cmd_SET_VELOCITY_LIMIT qmode_env [''ACCEL'' \<mapsto> 5000] fresh_toolhead)
     = Raise ZeroDivisionError
   \<and> max_accel capped_toolhead = 0
   \<and> fst (cmd_SET_VELOCITY_LIMIT qmode_env Map.empty capped_toolhead) = Raise ZeroDivisionError
   \<and> fst (cmd_SET_VELOCITY_LIMIT qmode_env Map.empty capped_toolhead) \<noteq> Raise (NameError ''msg'')"
  by (simp add: velocity_limit_defs capped_toolhead_def qmode_env_def example_defs)

text \<open>
  Claim C8, amended. \<^verbatim>\<open>SET_VELOCITY_LIMIT\<close> with none of its four parameters never reports
  the current limits: the trace is the one before the command. When \<^verbatim>\<open>max_accel\<close> is not 0
  it ends in the NameError for \<^verbatim>\<open>msg\<close>; when \<^verbatim>\<open>max_accel\<close> is 0 it ends in the
  ZeroDivisionError of \<^verbatim>\<open>_calc_junction_deviation\<close>, before \<^verbatim>\<open>msg\<close> is read.
\<close>

theorem C8_no_argument_error:
  assumes "g ''VELOCITY'' = None" and "g ''ACCEL'' = None"
    and "g ''SQUARE_CORNER_VELOCITY'' = None" and "g ''ACCEL_TO_DECEL'' = None"
  shows "(max_accel s \<noteq> 0 \<longrightarrow>
            fst (cmd_SET_VELOCITY_LIMIT e g s) = Raise (NameError ''msg''))
     \<and> (max_accel s = 0 \<longrightarrow>
            fst (cmd_SET_VELOCITY_LIMIT e g s) = Raise ZeroDivisionError)
     \<and> trace (snd (cmd_SET_VELOCITY_LIMIT e g s)) = trace s"
  using assms by (simp add: velocity_limit_defs Let_def)

text \<open>
  The command without parameters on the fresh toolhead, and on the toolhead whose
  acceleration has been capped to 0.
\<close>

theorem C8_witness:
  "max_accel fresh_toolhead \<noteq> 0
   \<and> fst (cmd_SET_VELOCITY_LIMIT example_env Map.empty fresh_toolhead) = Raise (NameError ''msg'')
   \<and> trace (snd (cmd_SET_VELOCITY_LIMIT example_env Map.empty fresh_toolhead)) = trace fresh_toolhead
   \<and> max_accel capped_toolhead = 0
   \<and> fst (cmd_SET_VELOCITY_LIMIT qmode_env Map.empty capped_toolhead) = Raise ZeroDivisionError
   \<and> trace (snd (cmd_SET_VELOCITY_LIMIT qmode_env Map.empty capped_toolhead)) = trace capped_toolhead"
proof -
  have m: "max_accel fresh_toolhead \<noteq> 0" by (simp add: example_defs)
  have z: "max_accel capped_toolhead = 0"
    by (simp add: velocity_limit_defs capped_toolhead_def qmode_env_def example_defs)
  from m z C8_no_argument_error [of Map.empty fresh_toolhead example_env]
    C8_no_argument_error [of Map.empty capped_toolhead qmode_env]
  show ?thesis by simp
qed

lemma extends_quietly_refl [simp]: "extends_quietly s s"
  by (simp add: extends_quietly_def quiet_def)

lemma extends_quietly_trans:
  "extends_quietly s s' \<Longrightarrow> extends_quietly s' s'' \<Longrightarrow> extends_quietly s s''"
  unfolding extends_quietly_def quiet_def by fastforce

lemma extends_quietly_same_trace:
  "trace s' = trace s \<Longrightarrow> extends_quietly s s'"
  by (simp add: extends_quietly_def quiet_def)

lemma quiet_round_events: "quiet (round_events kfd lkft pt s)"
  by (auto simp: quiet_def round_events_def)

lemma extends_quietly_update_move_time_loop:
  "extends_quietly s (update_move_time_loop kfd lkft n s)"
proof (induction kfd lkft n s rule: update_move_time_loop.induct)
  case (1 kfd lkft n s)
  have st: "extends_quietly s (update_move_time_step kfd lkft n s)"
    unfolding extends_quietly_def update_move_time_step_eq
    using quiet_round_events by auto
  show ?case
  proof (cases "n \<le> print_time (update_move_time_step kfd lkft n s)")
    case True
    then show ?thesis
      using st by (subst update_move_time_loop.simps) (simp add: Let_def)
  next
    case False
    from 1 [OF refl False] st show ?thesis
      using False extends_quietly_trans
      by (subst update_move_time_loop.simps) (auto simp: Let_def)
  qed
qed

lemma extends_quietly_update_move_time: "extends_quietly s (update_move_time n s)"
  unfolding update_move_time_def by (rule extends_quietly_update_move_time_loop)

lemma extends_quietly_calc_print_time: "extends_quietly s (calc_print_time e s)"
  by (auto simp: calc_print_time_def Let_def extends_quietly_def quiet_def)

lemma extends_quietly_update_drip_move_time_loop:
  "extends_quietly s (snd (update_drip_move_time_loop fuel e fd n s))"
proof (induction fuel arbitrary: s)
  case 0
  show ?case
    by (subst update_drip_move_time_loop.simps)
       (simp add: Let_def split: option.splits)
next
  case (Suc k)
  have a: "extends_quietly s (snd (update_drip_move_time_loop k e fd n (s\<lparr>reactor_time := t\<rparr>)))" for t
    by (rule extends_quietly_trans [OF _ Suc]) (simp add: extends_quietly_same_trace)
  have b: "extends_quietly s (snd (update_drip_move_time_loop k e fd n (update_move_time m s)))" for m
    using extends_quietly_trans [OF extends_quietly_update_move_time Suc] .
  show ?case
    by (subst update_drip_move_time_loop.simps)
       (simp add: Let_def a b split: option.splits)
qed

lemma extends_quietly_process_moves: "extends_quietly s (snd (process_moves e ms s))"
proof -
  define s1 where "s1 = (if special_queuing_state s \<noteq> ''''
                then calc_print_time e
                       (if special_queuing_state s \<noteq> ''Drip''
                        then s\<lparr>special_queuing_state := '''',
                                need_check_stall := - 1,
                                flush_timer := reactor_NOW e\<rparr>
                        else s)
                else s)"
  have u1: "extends_quietly s s1"
  proof -
    have "extends_quietly s (s\<lparr>special_queuing_state := '''', need_check_stall := - 1,
             flush_timer := reactor_NOW e\<rparr>)"
      by (simp add: extends_quietly_same_trace)
    then show ?thesis
      unfolding s1_def using extends_quietly_trans [OF _ extends_quietly_calc_print_time]
        extends_quietly_calc_print_time by auto
  qed
  define rv where "rv = trapq_append_from_moveq e (print_time s1) (map fst ms)"
  define s3 where "s3 = (let s2 = s1\<lparr>trace := trace s1 @ [TrapqAppendFromMoveq (print_time s1) (length ms)]\<rparr>
     in if snd rv < 109999999 then s2\<lparr>extruder_last_position := snd rv\<rparr> else s2)"
  have "extends_quietly s1 s3"
    by (auto simp: s3_def Let_def extends_quietly_def quiet_def)
  with u1 have u3: "extends_quietly s s3" by (rule extends_quietly_trans)
  have pm: "process_moves e ms s =
     (case (if special_queuing_state s3 \<noteq> ''''
               then update_drip_move_time e (fst rv) s3 else (Ok, s3)) of
           (Ok, s4) \<Rightarrow> (Ok, (update_move_time (fst rv) s4)\<lparr>last_kin_move_time := fst rv\<rparr>)
         | (r, s4) \<Rightarrow> (r, s4))"
    by (simp only: process_moves_def s1_def rv_def s3_def Let_def)
  have ud: "extends_quietly s (snd (update_drip_move_time e n s3))" for n
    unfolding update_drip_move_time_def Let_def
    using extends_quietly_trans [OF u3 extends_quietly_update_drip_move_time_loop] .
  have fin: "extends_quietly s ((update_move_time n s4)\<lparr>last_kin_move_time := n\<rparr>)"
    if "extends_quietly s s4" for s4 n
  proof -
    have "extends_quietly (update_move_time n s4) ((update_move_time n s4)\<lparr>last_kin_move_time := n\<rparr>)"
      by (simp add: extends_quietly_same_trace)
    with extends_quietly_trans [OF that extends_quietly_update_move_time]
    show ?thesis by (rule extends_quietly_trans)
  qed
  show ?thesis
  proof (cases "special_queuing_state s3 \<noteq> ''''")
    case True
    obtain r s4 where r: "update_drip_move_time e (fst rv) s3 = (r, s4)" by force
    with ud [of "fst rv"] have "extends_quietly s s4" by simp
    with r True fin show ?thesis
      by (cases r) (simp_all add: pm)
  next
    case False
    with u3 fin show ?thesis by (simp add: pm)
  qed
qed

lemma flush_nonempty_trace:
  assumes "queue s \<noteq> []"
  shows "\<exists>evs. trace (snd (flush e lazy s))
           = trace s @ PyMoveQueueFlushCal (length (queue s)) lazy # evs \<and> quiet evs"
proof -
  define k where "k = Py_move_queue_flush_cal e (map fst (queue s)) lazy"
  define s2 where "s2 = s\<lparr>junction_flush := LOOKAHEAD_FLUSH_TIME,
                   trace := trace s @ [PyMoveQueueFlushCal (length (queue s)) lazy]\<rparr>"
  obtain r s3 where pm: "process_moves e (take k (queue s)) s2 = (r, s3)" by force
  obtain evs where evs: "trace s3 = trace s2 @ evs" "quiet evs"
    using extends_quietly_process_moves [of s2 e "take k (queue s)"] pm
    by (auto simp: extends_quietly_def)
  have t2: "trace s2 = trace s @ [PyMoveQueueFlushCal (length (queue s)) lazy]"
    by (simp add: s2_def)
  have q: "quiet (evs @ [PyMoveQueueDel k])" "quiet []"
    using evs(2) by (auto simp: quiet_def)
  show ?thesis
  proof (cases "k = 0")
    case True
    then show ?thesis
      using assms t2 q(2)
      by (simp add: flush_nonempty Let_def s2_def [symmetric] k_def [symmetric])
  next
    case False
    show ?thesis
    proof (cases r)
      case Ok
      then have "trace (snd (flush e lazy s))
          = trace s @ PyMoveQueueFlushCal (length (queue s)) lazy # (evs @ [PyMoveQueueDel k])"
        using assms False pm evs(1) t2
        by (simp add: flush_nonempty Let_def s2_def [symmetric] k_def [symmetric])
      with q(1) show ?thesis by blast
    next
      case (Raise err)
      then have "trace (snd (flush e lazy s))
          = trace s @ PyMoveQueueFlushCal (length (queue s)) lazy # evs"
        using assms False pm evs(1) t2
        by (simp add: flush_nonempty Let_def s2_def [symmetric] k_def [symmetric])
      with evs(2) show ?thesis by blast
    next
      case OutOfFuel
      then have "trace (snd (flush e lazy s))
          = trace s @ PyMoveQueueFlushCal (length (queue s)) lazy # evs"
        using assms False pm evs(1) t2
        by (simp add: flush_nonempty Let_def s2_def [symmetric] k_def [symmetric])
      with evs(2) show ?thesis by blast
    qed
  qed
qed

lemma extends_quietly_flush: "extends_quietly s (snd (flush e lazy s))"
proof (cases "queue s = []")
  case True
  then show ?thesis by (simp add: flush_empty extends_quietly_same_trace)
next
  case False
  from flush_nonempty_trace [OF False, of e lazy] show ?thesis
    unfolding extends_quietly_def quiet_def by auto
qed

lemma extends_quietly_flush_step_generation:
  "extends_quietly s (snd (flush_step_generation e s))"
proof -
  obtain r sa where fl: "flush e False s = (r, sa)" by force
  with extends_quietly_flush [of s e False] have a: "extends_quietly s sa" by simp
  have b: "extends_quietly s (update_move_time n (sa\<lparr>special_queuing_state := ''Flushed'',
      need_check_stall := - 1, flush_timer := reactor_NEVER e, junction_flush := j,
      idle_flush_print_time := 0, last_kin_flush_time := l\<rparr>))" for n j l
    by (rule extends_quietly_trans [OF extends_quietly_trans [OF a] extends_quietly_update_move_time])
       (simp add: extends_quietly_same_trace)
  show ?thesis
    using a b fl
    by (cases r) (simp_all add: flush_step_generation_def Let_def set_flush_time_def)
qed

text \<open>
  Claim C5, as stated, fails for the first move: a move with \<^verbatim>\<open>min_move_t\<close> = 3 placed into
  the empty queue of a fresh toolhead (countdown 2) would bring the countdown to -1 and
  trigger the lazy flush, but \<^verbatim>\<open>add_move\<close> returns after the append: the countdown is not
  decreased and the native flush is not called.
\<close>

theorem C5_counterexample:
  "queue fresh_toolhead = []
   \<and> junction_flush fresh_toolhead - min_move_t long_move \<le> 0
   \<and> queue (snd (add_move example_env long_move fresh_toolhead)) = [(long_move, [])]
   \<and> junction_flush (snd (add_move example_env long_move fresh_toolhead))
       \<noteq> junction_flush fresh_toolhead - min_move_t long_move
   \<and> PyMoveQueueFlushCal 1 True \<notin> set (trace (snd (add_move example_env long_move fresh_toolhead)))"
  by (simp add: add_move_def long_move_def example_defs)

text \<open>
  Claim C5, amended. \<^verbatim>\<open>add_move\<close> places the move at the tail. When the queue was not
  empty, it subtracts \<^verbatim>\<open>min_move_t\<close> from the countdown and calls \<^verbatim>\<open>flush(lazy=True)\<close>
  exactly when the resulting countdown is at most 0 (the call reaches the native planner
  as the first new event of the trace); otherwise it returns with the new countdown and
  the trace as it was. The first move placed into an empty queue is only appended: the
  countdown and the trace stay as they were.
\<close>

theorem C5_add_move:
  "(queue s = [] \<longrightarrow> add_move e m s = (Ok, s\<lparr>queue := [(m, [])]\<rparr>))
   \<and> (queue s \<noteq> [] \<and> 0 < junction_flush s - min_move_t m \<longrightarrow>
        add_move e m s
          = (Ok, s\<lparr>queue := queue s @ [(m, [])],
                   junction_flush := junction_flush s - min_move_t m\<rparr>))
   \<and> (queue s \<noteq> [] \<and> junction_flush s - min_move_t m \<le> 0 \<longrightarrow>
        add_move e m s
          = flush e True (s\<lparr>queue := queue s @ [(m, [])],
                            junction_flush := junction_flush s - min_move_t m\<rparr>)
        \<and> (\<exists>evs. trace (snd (add_move e m s))
              = trace s @ PyMoveQueueFlushCal (Suc (length (queue s))) True # evs))"
proof (intro conjI impI)
  assume "queue s = []"
  then show "add_move e m s = (Ok, s\<lparr>queue := [(m, [])]\<rparr>)"
    by (simp add: add_move_def Let_def)
next
  assume "queue s \<noteq> [] \<and> 0 < junction_flush s - min_move_t m"
  then show "add_move e m s
          = (Ok, s\<lparr>queue := queue s @ [(m, [])],
                   junction_flush := junction_flush s - min_move_t m\<rparr>)"
    by (simp add: add_move_def Let_def)
next
  assume a: "queue s \<noteq> [] \<and> junction_flush s - min_move_t m \<le> 0"
  define s2 where "s2 = s\<lparr>queue := queue s @ [(m, [])],
                            junction_flush := junction_flush s - min_move_t m\<rparr>"
  from a show eq: "add_move e m s
          = flush e True (s\<lparr>queue := queue s @ [(m, [])],
                            junction_flush := junction_flush s - min_move_t m\<rparr>)"
    by (simp add: add_move_def Let_def)
  have "queue s2 \<noteq> []" by (simp add: s2_def)
  from flush_nonempty_trace [OF this, of e True]
  show "\<exists>evs. trace (snd (add_move e m s))
              = trace s @ PyMoveQueueFlushCal (Suc (length (queue s))) True # evs"
    unfolding eq s2_def [symmetric] by (auto simp: s2_def)
qed

text \<open>
  The three cases at concrete inputs: the fresh toolhead; one queued move and a move of
  one second (countdown 2 - 1 stays positive); one queued move and a move of three
  seconds (countdown -1, lazy flush).
\<close>

theorem C5_witness:
  "queue fresh_toolhead = []
   \<and> add_move example_env long_move fresh_toolhead
       = (Ok, fresh_toolhead\<lparr>queue := [(long_move, [])]\<rparr>)
   \<and> queue one_move_queued \<noteq> []
   \<and> 0 < junction_flush one_move_queued - min_move_t example_move
   \<and> add_move example_env example_move one_move_queued
       = (Ok, one_move_queued\<lparr>queue := [(example_move, []), (example_move, [])],
                               junction_flush := 1\<rparr>)
   \<and> junction_flush one_move_queued - min_move_t long_move \<le> 0
   \<and> (\<exists>evs. trace (snd (add_move example_env long_move one_move_queued))
         = PyMoveQueueFlushCal 2 True # evs)"
proof -
  have h: "queue fresh_toolhead = []" "queue one_move_queued \<noteq> []"
    "0 < junction_flush one_move_queued - min_move_t example_move"
    "junction_flush one_move_queued - min_move_t long_move \<le> 0"
    "queue one_move_queued = [(example_move, [])]"
    "junction_flush one_move_queued - min_move_t example_move = 1"
    "trace one_move_queued = []"
    by (simp_all add: one_move_queued_def long_move_def example_defs)
  have a: "add_move example_env long_move fresh_toolhead
       = (Ok, fresh_toolhead\<lparr>queue := [(long_move, [])]\<rparr>)"
    using C5_add_move [of fresh_toolhead example_env long_move] h(1) by blast
  have b: "add_move example_env example_move one_move_queued
       = (Ok, one_move_queued\<lparr>queue := [(example_move, []), (example_move, [])],
                               junction_flush := 1\<rparr>)"
    using C5_add_move [of one_move_queued example_env example_move] h(2,3,5,6) by simp
  have "\<exists>evs. trace (snd (add_move example_env long_move one_move_queued))
         = trace one_move_queued
           @ PyMoveQueueFlushCal (Suc (length (queue one_move_queued))) True # evs"
    using C5_add_move [of one_move_queued example_env long_move] h(2,4) by blast
  then have c: "\<exists>evs. trace (snd (add_move example_env long_move one_move_queued))
         = PyMoveQueueFlushCal 2 True # evs"
    by (simp add: h(5,7) numeral_2_eq_2)
  from h(1,2,3,4) a b c show ?thesis by blast
qed

lemma py_int_minus_one: "py_int (- 1) = - 1"
  by (simp add: py_int_def ceiling_def)

lemmas M204_defs = cmd_M204_def Let_def calc_junction_deviation_def accel_applied_def
  get_float_above_def py_int_minus_one

text \<open>
  Claim C6, as stated, fails: for \<^verbatim>\<open>M204 S100.5\<close> the parameter is given and greater than
  100, but the test is made on \<^verbatim>\<open>int(float(S))\<close> = 100 and the acceleration becomes 100.
\<close>

theorem C6_counterexample:
  "[''S'' \<mapsto> 201 / 2] ''S'' = Some (201 / 2 :: real)
   \<and> (100 :: real) < 201 / 2
   \<and> fst (cmd_M204 example_env [''S'' \<mapsto> 201 / 2] fresh_toolhead) = Ok
   \<and> max_accel (snd (cmd_M204 example_env [''S'' \<mapsto> 201 / 2] fresh_toolhead)) = 100
   \<and> max_accel (snd (cmd_M204 example_env [''S'' \<mapsto> 201 / 2] fresh_toolhead)) \<noteq> 201 / 2"
  by (simp add: cmd_M204_def py_int_def calc_junction_deviation_def example_defs)

text \<open>
  Claim C6, amended. With \<open>k\<close> the integer part \<^verbatim>\<open>int(float(S))\<close> of a given \<^verbatim>\<open>S\<close>: if
  \<open>k\<close> is not -1 and at most 100 the acceleration is 100; if \<open>k\<close> is above 100 it is \<^verbatim>\<open>S\<close>;
  if \<^verbatim>\<open>S\<close> is absent and \<^verbatim>\<open>P\<close> and \<^verbatim>\<open>T\<close> are both given and positive it is their minimum;
  if \<^verbatim>\<open>S\<close> is absent and \<^verbatim>\<open>P\<close> or \<^verbatim>\<open>T\<close> is missing (the other, when given, positive) the
  key73 response is produced and nothing else changes. In the three successful cases
  \<^verbatim>\<open>max_accel\<close> is updated and the junction deviation recomputed. Nothing is said about
  a given \<^verbatim>\<open>S\<close> whose integer part is -1.
\<close>

theorem C6_M204:
  "(g ''S'' = Some v \<and> py_int v \<noteq> - 1 \<and> py_int v \<le> 100 \<longrightarrow>
      fst (cmd_M204 e g s) = Ok \<and> accel_applied 100 s (snd (cmd_M204 e g s)))
   \<and> (g ''S'' = Some v \<and> 100 < py_int v \<longrightarrow>
      fst (cmd_M204 e g s) = Ok \<and> accel_applied v s (snd (cmd_M204 e g s)))
   \<and> (g ''S'' = None \<and> g ''P'' = Some p \<and> g ''T'' = Some t \<and> 0 < p \<and> 0 < t \<longrightarrow>
      fst (cmd_M204 e g s) = Ok \<and> accel_applied (min p t) s (snd (cmd_M204 e g s)))
   \<and> (g ''S'' = None \<and> (g ''P'' = None \<or> g ''T'' = None)
        \<and> (g ''P'' = None \<or> (\<exists>x. g ''P'' = Some x \<and> 0 < x))
        \<and> (g ''T'' = None \<or> (\<exists>x. g ''T'' = Some x \<and> 0 < x)) \<longrightarrow>
      cmd_M204 e g s = (Ok, s\<lparr>trace := trace s @ [RespondInfo ''key73'']\<rparr>))"
proof -
  have c1: "fst (cmd_M204 e g s) = Ok \<and> accel_applied 100 s (snd (cmd_M204 e g s))"
    if "g ''S'' = Some v \<and> py_int v \<noteq> - 1 \<and> py_int v \<le> 100"
    using that by (simp add: M204_defs)
  have c2: "fst (cmd_M204 e g s) = Ok \<and> accel_applied v s (snd (cmd_M204 e g s))"
    if a: "g ''S'' = Some v \<and> 100 < py_int v"
  proof -
    from a have "0 < v" "v \<noteq> 0" "py_int v \<noteq> - 1" "\<not> py_int v \<le> 100"
      by (auto simp: py_int_def split: if_splits)
    with a show ?thesis by (simp add: M204_defs)
  qed
  have c3: "fst (cmd_M204 e g s) = Ok \<and> accel_applied (min p t) s (snd (cmd_M204 e g s))"
    if a: "g ''S'' = None \<and> g ''P'' = Some p \<and> g ''T'' = Some t \<and> 0 < p \<and> 0 < t"
  proof -
    from a have "min p t \<noteq> 0" by auto
    with a show ?thesis by (simp add: M204_defs)
  qed
  have c4: "cmd_M204 e g s = (Ok, s\<lparr>trace := trace s @ [RespondInfo ''key73'']\<rparr>)"
    if "g ''S'' = None \<and> (g ''P'' = None \<or> g ''T'' = None)
        \<and> (g ''P'' = None \<or> (\<exists>x. g ''P'' = Some x \<and> 0 < x))
        \<and> (g ''T'' = None \<or> (\<exists>x. g ''T'' = Some x \<and> 0 < x))"
    using that by (auto simp: M204_defs)
  from c1 c2 c3 c4 show ?thesis by blast
qed

text \<open>
  The four cases on the fresh toolhead: \<^verbatim>\<open>M204 S50\<close>, \<^verbatim>\<open>M204 S500\<close>, \<^verbatim>\<open>M204 P300 T200\<close> and
  \<^verbatim>\<open>M204 P300\<close>.
\<close>

theorem C6_witness:
  "py_int 50 \<noteq> - 1 \<and> py_int 50 \<le> 100
   \<and> fst (cmd_M204 example_env [''S'' \<mapsto> 50] fresh_toolhead) = Ok
   \<and> max_accel (snd (cmd_M204 example_env [''S'' \<mapsto> 50] fresh_toolhead)) = 100
   \<and> 100 < py_int 500
   \<and> max_accel (snd (cmd_M204 example_env [''S'' \<mapsto> 500] fresh_toolhead)) = 500
   \<and> max_accel (snd (cmd_M204 example_env [''P'' \<mapsto> 300, ''T'' \<mapsto> 200] fresh_toolhead)) = 200
   \<and> cmd_M204 example_env [''P'' \<mapsto> 300] fresh_toolhead
       = (Ok, fresh_toolhead\<lparr>trace := trace fresh_toolhead @ [RespondInfo ''key73'']\<rparr>)"
proof -
  have h: "py_int 50 \<noteq> - 1" "py_int 50 \<le> 100" "100 < py_int 500"
    by (simp_all add: py_int_def)
  have a: "fst (cmd_M204 example_env [''S'' \<mapsto> 50] fresh_toolhead) = Ok
      \<and> max_accel (snd (cmd_M204 example_env [''S'' \<mapsto> 50] fresh_toolhead)) = 100"
    using C6_M204 [where g = "[''S'' \<mapsto> 50]" and v = 50 and e = example_env
        and s = fresh_toolhead] h(1,2)
    by (simp add: accel_applied_def)
  have b: "max_accel (snd (cmd_M204 example_env [''S'' \<mapsto> 500] fresh_toolhead)) = 500"
    using C6_M204 [where g = "[''S'' \<mapsto> 500]" and v = 500 and e = example_env
        and s = fresh_toolhead] h(3)
    by (simp add: accel_applied_def)
  have c: "max_accel (snd (cmd_M204 example_env [''P'' \<mapsto> 300, ''T'' \<mapsto> 200] fresh_toolhead)) = 200"
    using C6_M204 [where g = "[''P'' \<mapsto> 300, ''T'' \<mapsto> 200]" and p = 300 and t = 200
        and e = example_env and s = fresh_toolhead]
    by (simp add: accel_applied_def)
  have d: "cmd_M204 example_env [''P'' \<mapsto> 300] fresh_toolhead
       = (Ok, fresh_toolhead\<lparr>trace := trace fresh_toolhead @ [RespondInfo ''key73'']\<rparr>)"
    using C6_M204 [where g = "[''P'' \<mapsto> 300]" and e = example_env and s = fresh_toolhead]
    by simp
  from h a b c d show ?thesis by blast
qed

lemmas scenario_defs = moved_once_def with_callback_def flushed_with_callback_def
  noted_activity_def moved_after_activity_def

text \<open>
  Claim C1 does not hold of the code. A callback registered while a move is the tail of
  the queue is stored with that move, but \<^verbatim>\<open>_process_moves\<close> hands the batch to the native
  \<^verbatim>\<open>trapq_append_from_moveq\<close> and the loop that called the callbacks is commented out. In
  the run below callback 7 is attached to the queued move, the flush succeeds, hands the
  move to the trapezoid queue and empties the lookahead queue, and a second move is
  flushed after it; the callback is called at no point.
\<close>

theorem C1_attached_callback_never_fires:
  "queue moved_once = [(example_move, [])]
   \<and> register_lookahead_callback example_env 7 moved_once
       = (Ok, moved_once\<lparr>queue := [(example_move, [7])]\<rparr>)
   \<and> fst (flush_step_generation example_env with_callback) = Ok
   \<and> queue flushed_with_callback = []
   \<and> TrapqAppendFromMoveq (1 / 4) 1 \<in> set (trace flushed_with_callback)
   \<and> quiet (trace flushed_with_callback)
   \<and> fst (move example_env [20, 0, 0, 0] 60 flushed_with_callback) = Ok
   \<and> quiet (trace (snd (flush_step_generation example_env
              (snd (move example_env [20, 0, 0, 0] 60 flushed_with_callback)))))"
proof -
  have a: "queue moved_once = [(example_move, [])]"
    by (simp add: scenario_defs run_defs example_defs)
  have b: "register_lookahead_callback example_env 7 moved_once
       = (Ok, moved_once\<lparr>queue := [(example_move, [7])]\<rparr>)"
    by (simp add: register_lookahead_callback_def get_last_def a)
  have c: "fst (flush_step_generation example_env with_callback) = Ok"
    by (simp add: scenario_defs run_defs example_defs)
  have d: "queue flushed_with_callback = []"
    by (simp add: scenario_defs run_defs example_defs)
  have e: "TrapqAppendFromMoveq (1 / 4) 1 \<in> set (trace flushed_with_callback)"
    by (simp add: scenario_defs run_defs example_defs)
  have f: "quiet (trace flushed_with_callback)"
    by (simp add: scenario_defs run_defs example_defs quiet_def)
  have g: "fst (move example_env [20, 0, 0, 0] 60 flushed_with_callback) = Ok"
    by (simp add: scenario_defs run_defs example_defs)
  have "extends_quietly flushed_with_callback
          (snd (move example_env [20, 0, 0, 0] 60 flushed_with_callback))"
    by (rule extends_quietly_same_trace) (simp add: scenario_defs run_defs example_defs)
  from extends_quietly_trans [OF this extends_quietly_flush_step_generation [of _ example_env]] f
  have h: "quiet (trace (snd (flush_step_generation example_env
              (snd (move example_env [20, 0, 0, 0] 60 flushed_with_callback)))))"
    by (auto simp: extends_quietly_def quiet_def)
  from a b c d e f g h show ?thesis by blast
qed

text \<open>
  Claim C2 does not hold of the code for \<^verbatim>\<open>last_kin_move_time\<close>.
  \<^verbatim>\<open>note_kinematic_activity\<close> raises the field with \<^verbatim>\<open>max\<close>, but \<^verbatim>\<open>_process_moves\<close> assigns
  the end time of the batch to it. After activity has been noted up to 10, a move and a
  flush of the fresh toolhead leave the field at 1.25.
\<close>

theorem C2_last_kin_move_time_decreases:
  "last_kin_move_time noted_activity = 10
   \<and> fst (move example_env [10, 0, 0, 0] 60 noted_activity) = Ok
   \<and> last_kin_move_time moved_after_activity = 10
   \<and> fst (flush_step_generation example_env moved_after_activity) = Ok
   \<and> last_kin_move_time (snd (flush_step_generation example_env moved_after_activity)) = 5 / 4
   \<and> last_kin_move_time (snd (flush_step_generation example_env moved_after_activity))
       < last_kin_move_time moved_after_activity"
proof -
  have a: "last_kin_move_time noted_activity = 10"
    by (simp add: scenario_defs run_defs example_defs)
  have b: "fst (move example_env [10, 0, 0, 0] 60 noted_activity) = Ok"
    by (simp add: scenario_defs run_defs example_defs)
  have c: "last_kin_move_time moved_after_activity = 10"
    by (simp add: scenario_defs run_defs example_defs)
  have d: "fst (flush_step_generation example_env moved_after_activity) = Ok"
    by (simp add: scenario_defs run_defs example_defs)
  have e: "last_kin_move_time (snd (flush_step_generation example_env moved_after_activity)) = 5 / 4"
    by (simp add: scenario_defs run_defs example_defs)
  from a b c d e show ?thesis by simp
qed

end
